theory Spec2Isabelle
  imports Complex_Main "HOL-Library.AList"
begin

section \<open>Python values\<close>

text \<open>
  Strings are byte strings: a Python \<open>str\<close> is modelled by its UTF-8 encoding, so a
  Chinese label is a list of six or more \<open>char\<close>s. A Python \<open>float\<close> is an exact
  rational, an infinity or a NaN; the sign of a zero is not kept, since nothing here
  reads it (\<open>int\<close> and truthiness treat both zeros alike). A parsed JSON document (what \<open>json.loads\<close> and
  \<open>resp.json()\<close> return) is a \<open>json\<close>; a \<open>dict\<close> is an association list in insertion
  order, read with \<open>map_of\<close> and written with \<open>AList.update\<close>, which replaces a binding in
  place or appends a new one as Python does.
\<close>

datatype pyfloat = Finite rat | PosInf | NegInf | NaN

datatype json =
    JNull
  | JBool bool
  | JInt int
  | JFloat pyfloat
  | JStr string
  | JArr "json list"
  | JObj "(string \<times> json) list"

type_synonym dict = "(string \<times> json) list"

datatype py_error =
    TypeError | KeyError | IndexError | AttributeError | ValueError | OverflowError
  | JSONDecodeError | TransportError | ApiHttpError nat | EmptyContent

text \<open>Truthiness, as \<open>if x:\<close>, \<open>x or y\<close> and \<open>not x\<close> test it.\<close>

fun truthy :: "json \<Rightarrow> bool" where
  "truthy JNull = False"
| "truthy (JBool b) = b"
| "truthy (JInt i) = (i \<noteq> 0)"
| "truthy (JFloat f) = (f \<noteq> Finite 0)"
| "truthy (JStr s) = (s \<noteq> [])"
| "truthy (JArr xs) = (xs \<noteq> [])"
| "truthy (JObj kvs) = (kvs \<noteq> [])"

text \<open>Exceptions are values: \<open>Inl e\<close> is a raised \<open>e\<close>, and \<open>ebind\<close> sequences two steps.\<close>

definition ebind :: "py_error + 'a \<Rightarrow> ('a \<Rightarrow> py_error + 'b) \<Rightarrow> py_error + 'b" where
  "ebind m f = (case m of Inl e \<Rightarrow> Inl e | Inr x \<Rightarrow> f x)"

text \<open>
  The code points of a string, each as its own UTF-8 string: a new code point starts at
  every byte that is not a continuation byte \<open>0x80..0xBF\<close>. Python's \<open>len\<close>, indexing
  and slicing of a \<open>str\<close> count code points.
\<close>

definition is_cont :: "char \<Rightarrow> bool" where
  "is_cont c = (128 \<le> (of_char c :: nat) \<and> (of_char c :: nat) < 192)"

function utf8_chars :: "string \<Rightarrow> string list" where
  "utf8_chars [] = []"
| "utf8_chars (c # cs) = (c # takeWhile is_cont cs) # utf8_chars (dropWhile is_cont cs)"
  by pat_completeness auto
termination
  by (relation "measure length") (auto simp: length_dropWhile_le less_Suc_eq_le)

definition str_len :: "string \<Rightarrow> nat" where
  "str_len s = length (utf8_chars s)"

definition str_take :: "nat \<Rightarrow> string \<Rightarrow> string" where
  "str_take n s = concat (take n (utf8_chars s))"

fun startswith :: "string \<Rightarrow> string \<Rightarrow> bool" where
  "startswith [] s = True"
| "startswith (p # ps) [] = False"
| "startswith (p # ps) (c # cs) = (p = c \<and> startswith ps cs)"

text \<open>\<open>p in s\<close> for two strings.\<close>

fun is_substr :: "string \<Rightarrow> string \<Rightarrow> bool" where
  "is_substr p [] = (p = [])"
| "is_substr p (c # cs) = (startswith p (c # cs) \<or> is_substr p cs)"

text \<open>\<open>s.split(sep)\<close> for a one-character separator: always at least one part.\<close>

fun split_char :: "char \<Rightarrow> string \<Rightarrow> string list" where
  "split_char sep [] = [[]]"
| "split_char sep (c # cs) =
     (case split_char sep cs of
        [] \<Rightarrow> [[c]]
      | part # parts \<Rightarrow> if c = sep then [] # part # parts else (c # part) # parts)"

text \<open>\<open>str(n)\<close> for an integer.\<close>

definition digit_char :: "nat \<Rightarrow> char" where
  "digit_char d = ''0123456789'' ! d"

function str_nat :: "nat \<Rightarrow> string" where
  "str_nat n = (if n < 10 then [digit_char n] else str_nat (n div 10) @ [digit_char (n mod 10)])"
  by pat_completeness auto
termination
  by (relation "measure id") auto

definition str_int :: "int \<Rightarrow> string" where
  "str_int i = (if i < 0 then CHR ''-'' # str_nat (nat (- i)) else str_nat (nat i))"

text \<open>
  Operations on parsed JSON values, with the exception Python raises where the value has
  the wrong type: \<open>k in x\<close>, \<open>x[k]\<close> for a string key, \<open>x[i]\<close> for a non-negative
  index, \<open>x.get(k, default)\<close>, \<open>len(x)\<close> and iteration \<open>for y in x\<close>. The keys of a
  parsed JSON object are strings, so an integer subscript on a dict is a \<open>KeyError\<close>.
\<close>

fun py_contains :: "string \<Rightarrow> json \<Rightarrow> py_error + bool" where
  "py_contains k (JObj kvs) = Inr (k \<in> set (map fst kvs))"
| "py_contains k (JArr xs) = Inr (JStr k \<in> set xs)"
| "py_contains k (JStr s) = Inr (is_substr k s)"
| "py_contains k _ = Inl TypeError"

fun py_getitem :: "json \<Rightarrow> string \<Rightarrow> py_error + json" where
  "py_getitem (JObj kvs) k = (case map_of kvs k of None \<Rightarrow> Inl KeyError | Some v \<Rightarrow> Inr v)"
| "py_getitem _ k = Inl TypeError"

fun py_index :: "json \<Rightarrow> nat \<Rightarrow> py_error + json" where
  "py_index (JArr xs) i = (if i < length xs then Inr (xs ! i) else Inl IndexError)"
| "py_index (JStr s) i =
     (if i < str_len s then Inr (JStr (utf8_chars s ! i)) else Inl IndexError)"
| "py_index (JObj kvs) i = Inl KeyError"
| "py_index _ i = Inl TypeError"

fun py_get :: "json \<Rightarrow> string \<Rightarrow> json \<Rightarrow> py_error + json" where
  "py_get (JObj kvs) k dflt = Inr (case map_of kvs k of None \<Rightarrow> dflt | Some v \<Rightarrow> v)"
| "py_get _ k dflt = Inl AttributeError"

fun py_len :: "json \<Rightarrow> py_error + nat" where
  "py_len (JArr xs) = Inr (length xs)"
| "py_len (JStr s) = Inr (str_len s)"
| "py_len (JObj kvs) = Inr (length kvs)"
| "py_len _ = Inl TypeError"

fun py_iter :: "json \<Rightarrow> py_error + json list" where
  "py_iter (JArr xs) = Inr xs"
| "py_iter (JStr s) = Inr (map JStr (utf8_chars s))"
| "py_iter (JObj kvs) = Inr (map (\<lambda>kv. JStr (fst kv)) kvs)"
| "py_iter _ = Inl TypeError"

text \<open>\<open>d.update({...})\<close>: the bindings are written in order.\<close>

definition dict_update :: "dict \<Rightarrow> (string \<times> json) list \<Rightarrow> dict" where
  "dict_update d kvs = foldl (\<lambda>acc kv. AList.update (fst kv) (snd kv) acc) d kvs"

text \<open>
  The standard library, taken as it is: what \<open>json.loads\<close> returns (\<open>None\<close> when it raises
  \<open>JSONDecodeError\<close>), \<open>str.strip\<close>, \<open>int\<close> of a string (\<open>None\<close> when it raises
  \<open>ValueError\<close>), group 1 of the fenced-block search that \<open>get_rating\<close> runs with
  \<open>re.search\<close> (\<open>None\<close> when nothing matches), the \<open>strftime\<close> formats of the date
  and of the quote's time stamp, and the text \<open>str(e)\<close> of an exception.
\<close>

record pylib =
  json_loads :: "string \<Rightarrow> json option"
  str_strip :: "string \<Rightarrow> string"
  int_of_str :: "string \<Rightarrow> int option"
  re_fence :: "string \<Rightarrow> string option"
  fmt_date :: "real \<Rightarrow> string"
  fmt_datetime :: "real \<Rightarrow> string"
  exc_str :: "py_error \<Rightarrow> string"

text \<open>\<open>int(x)\<close>: truncation toward zero for a float, an exception for what has no integer.\<close>

definition trunc_rat :: "rat \<Rightarrow> int" where
  "trunc_rat q = (if 0 \<le> q then \<lfloor>q\<rfloor> else \<lceil>q\<rceil>)"

fun py_int :: "pylib \<Rightarrow> json \<Rightarrow> py_error + int" where
  "py_int lib (JInt i) = Inr i"
| "py_int lib (JBool b) = Inr (if b then 1 else 0)"
| "py_int lib (JFloat (Finite q)) = Inr (trunc_rat q)"
| "py_int lib (JFloat NaN) = Inl ValueError"
| "py_int lib (JFloat _) = Inl OverflowError"
| "py_int lib (JStr s) = (case int_of_str lib s of None \<Rightarrow> Inl ValueError | Some i \<Rightarrow> Inr i)"
| "py_int lib _ = Inl TypeError"

section \<open>The TTL cache\<close>

text \<open>
  \<open>_cache\<close> maps a key to \<open>(time.time(), data)\<close>. The clock value is a real number of
  seconds: the program's clock is a double and its \<open>time.time() - ts\<close> is the rounded
  difference of two doubles, compared here as the exact difference. The cached data are the quote dict, a K-line list or a news list; \<open>PNone\<close> is
  Python's \<open>None\<close>, which \<open>_get_cache\<close> returns for an absent or expired entry.
\<close>

record kline =
  k_date :: string
  k_open :: pyfloat
  k_close :: pyfloat
  k_high :: pyfloat
  k_low :: pyfloat
  k_volume :: pyfloat

datatype news_tag = Stock | General

record news =
  n_title :: string
  n_url :: string
  n_source :: string
  n_time :: string
  n_summary :: string
  n_tag :: news_tag
  n_lang :: "string option"

datatype pyval = PNone | PDict dict | PKlines "kline list" | PNews "news list"

fun pv_truthy :: "pyval \<Rightarrow> bool" where
  "pv_truthy PNone = False"
| "pv_truthy (PDict d) = (d \<noteq> [])"
| "pv_truthy (PKlines ks) = (ks \<noteq> [])"
| "pv_truthy (PNews ns) = (ns \<noteq> [])"

type_synonym cache_store = "string \<rightharpoonup> (real \<times> pyval)"

definition CACHE_TTL :: real where
  "CACHE_TTL = 300"

definition get_cache :: "cache_store \<Rightarrow> real \<Rightarrow> string \<Rightarrow> pyval" where
  "get_cache c now key =
     (case c key of
        None \<Rightarrow> PNone
      | Some (ts, data) \<Rightarrow> if now - ts < CACHE_TTL then data else PNone)"

definition set_cache :: "cache_store \<Rightarrow> real \<Rightarrow> string \<Rightarrow> pyval \<Rightarrow> cache_store" where
  "set_cache c now key data = c(key \<mapsto> (now, data))"

text \<open>A history of \<open>_set_cache\<close> calls \<open>(time, key, data)\<close>, oldest first, from the empty store.\<close>

fun run_sets :: "cache_store \<Rightarrow> (real \<times> string \<times> pyval) list \<Rightarrow> cache_store" where
  "run_sets c [] = c"
| "run_sets c ((t, k, v) # ops) = run_sets (set_cache c t k v) ops"

section \<open>The outside world\<close>

text \<open>
  The process state is the TTL cache, the daily rating memo \<open>_rating_cache\<close>, the number
  of clock readings taken so far and the list of upstream requests issued so far, oldest
  first. The environment answers: \<open>clock n\<close> is the value of the \<open>n\<close>-th reading of the
  system clock (\<open>time.time()\<close>, \<open>datetime.now()\<close>, \<open>date.today()\<close>), and a reply function
  applied to the number of requests issued before gives what that request returns, so
  that two requests of one kind may be answered differently. \<open>api_key\<close> is \<open>LLM_API_KEY\<close>.
\<close>

datatype request = ReqSina | ReqQt | ReqKline string int | ReqNews | ReqLLM

datatype http_text = TextFail | TextResp nat string

datatype http_json = JsonFail | JsonResp nat "json option"

record world =
  cache :: cache_store
  rating_cache :: "string \<rightharpoonup> dict"
  ticks :: nat
  calls :: "request list"

record env =
  clock :: "nat \<Rightarrow> real"
  sina_reply :: "nat \<Rightarrow> http_text"
  qt_reply :: "nat \<Rightarrow> http_json"
  kline_reply :: "nat \<Rightarrow> string \<Rightarrow> int \<Rightarrow> kline list"
  news_reply :: "nat \<Rightarrow> news list"
  llm_reply :: "nat \<Rightarrow> http_json"
  api_key :: string

definition read_clock :: "env \<Rightarrow> world \<Rightarrow> real" where
  "read_clock e w = clock e (ticks w)"

definition tick :: "world \<Rightarrow> world" where
  "tick w = w\<lparr>ticks := Suc (ticks w)\<rparr>"

definition issue :: "request \<Rightarrow> world \<Rightarrow> world" where
  "issue r w = w\<lparr>calls := calls w @ [r]\<rparr>"

definition store :: "real \<Rightarrow> string \<Rightarrow> pyval \<Rightarrow> world \<Rightarrow> world" where
  "store t key data w = w\<lparr>cache := set_cache (cache w) t key data\<rparr>"

text \<open>
  A cache lookup by one of the fetch functions: \<open>_get_cache\<close> reads the clock only when
  the key is in the store.
\<close>

definition cache_lookup :: "env \<Rightarrow> string \<Rightarrow> world \<Rightarrow> pyval \<times> world" where
  "cache_lookup e key w =
     (if cache w key = None then (PNone, w)
      else (get_cache (cache w) (read_clock e w) key, tick w))"

section \<open>Quote fetch\<close>

definition SENTINEL :: json where
  "SENTINEL = JStr ''--''"

definition tencent_name :: string where
  "tencent_name = [CHR 0xE8, CHR 0x85, CHR 0xBE, CHR 0xE8, CHR 0xAE, CHR 0xAF, CHR 0xE6, CHR 0x8E, CHR 0xA7, CHR 0xE8, CHR 0x82, CHR 0xA1]"

definition initial_stock_info :: "string \<Rightarrow> dict" where
  "initial_stock_info stamp =
     [(''name'', JStr tencent_name), (''code'', JStr ''00700.HK''),
      (''current_price'', SENTINEL), (''change'', SENTINEL), (''change_percent'', SENTINEL),
      (''open'', SENTINEL), (''high'', SENTINEL), (''low'', SENTINEL),
      (''prev_close'', SENTINEL), (''volume'', SENTINEL), (''turnover'', SENTINEL),
      (''market_cap'', SENTINEL), (''pe_ratio'', SENTINEL), (''52w_high'', SENTINEL),
      (''52w_low'', SENTINEL), (''updated_at'', JStr stamp)]"

text \<open>
  The primary feed: status 200, a double quote in the text, and more than 15
  comma-separated fields between the first two double quotes.
\<close>

definition sina_fields :: "http_text \<Rightarrow> string list option" where
  "sina_fields r =
     (case r of
        TextFail \<Rightarrow> None
      | TextResp status text \<Rightarrow>
          if status = 200 \<and> CHR 0x22 \<in> set text then
            (case split_char (CHR 0x22) text of
               _ # data_str # _ \<Rightarrow>
                 (let flds = split_char CHR '','' data_str
                  in if length flds > 15 then Some flds else None)
             | _ \<Rightarrow> None)
          else None)"

definition sina_update :: "dict \<Rightarrow> string list \<Rightarrow> string \<Rightarrow> dict" where
  "sina_update info flds stamp =
     dict_update info
       [(''name'', JStr tencent_name),
        (''name_en'', JStr (if flds ! 0 \<noteq> [] then flds ! 0 else ''TENCENT'')),
        (''current_price'', JStr (flds ! 6)),
        (''change'', JStr (flds ! 7)),
        (''change_percent'', JStr (flds ! 8)),
        (''prev_close'', JStr (flds ! 3)),
        (''open'', JStr (flds ! 2)),
        (''high'', JStr (flds ! 4)),
        (''low'', JStr (flds ! 5)),
        (''volume'', JStr (flds ! 12)),
        (''turnover'', JStr (flds ! 11)),
        (''updated_at'', JStr stamp)]"

text \<open>
  The secondary feed: \<open>qt = data["data"]["hk00700"].get("qt", {}).get("hk00700", [])\<close>,
  reached only when both membership tests hold; \<open>Inr None\<close> when one of them fails.
\<close>

definition qt_lookup :: "json \<Rightarrow> py_error + json option" where
  "qt_lookup data =
     ebind (py_contains ''data'' data) (\<lambda>has_data.
       if \<not> has_data then Inr None else
       ebind (py_getitem data ''data'') (\<lambda>d.
       ebind (py_contains ''hk00700'' d) (\<lambda>has_hk.
       if \<not> has_hk then Inr None else
       ebind (py_getitem d ''hk00700'') (\<lambda>hk.
       ebind (py_get hk ''qt'' (JObj [])) (\<lambda>q.
       ebind (py_get q ''hk00700'' (JArr [])) (\<lambda>qt. Inr (Some qt)))))))"

text \<open>\<open>qt[i] if len(qt) > i else "--"\<close>, with \<open>n = len(qt)\<close>.\<close>

definition qt_item :: "json \<Rightarrow> nat \<Rightarrow> nat \<Rightarrow> py_error + json" where
  "qt_item qt n i = (if n > i then py_index qt i else Inr SENTINEL)"

definition qt_table :: "(string \<times> nat) list" where
  "qt_table =
     [(''market_cap'', 45), (''pe_ratio'', 39), (''52w_high'', 48), (''52w_low'', 49),
      (''dividend_yield'', 47), (''pb_ratio'', 51), (''turnover_rate'', 50),
      (''amplitude'', 43), (''total_shares'', 69), (''float_shares'', 70),
      (''nav_per_share'', 72)]"

text \<open>
  The assignments run in order on the mutable dict; an exception leaves the dict as the
  assignments before it made it.
\<close>

fun assign_fields :: "json \<Rightarrow> nat \<Rightarrow> dict \<Rightarrow> (string \<times> nat) list \<Rightarrow> dict \<times> py_error option" where
  "assign_fields qt n info [] = (info, None)"
| "assign_fields qt n info ((k, i) # rest) =
     (case qt_item qt n i of
        Inl e \<Rightarrow> (info, Some e)
      | Inr v \<Rightarrow> assign_fields qt n (AList.update k v info) rest)"

definition tencent_assign :: "dict \<Rightarrow> json \<Rightarrow> nat \<Rightarrow> dict" where
  "tencent_assign info qt n =
     (if map_of info ''current_price'' = Some SENTINEL then
        (case py_index qt 3 of
           Inl e \<Rightarrow> info
         | Inr v \<Rightarrow> fst (assign_fields qt n (AList.update ''current_price'' v info) qt_table))
      else fst (assign_fields qt n info qt_table))"

definition tencent_update :: "dict \<Rightarrow> http_json \<Rightarrow> dict" where
  "tencent_update info r =
     (case r of
        JsonFail \<Rightarrow> info
      | JsonResp status body \<Rightarrow>
          if status \<noteq> 200 then info else
          (case body of
             None \<Rightarrow> info
           | Some data \<Rightarrow>
               (case qt_lookup data of
                  Inl e \<Rightarrow> info
                | Inr None \<Rightarrow> info
                | Inr (Some qt) \<Rightarrow>
                    if \<not> truthy qt then info else
                    (case py_len qt of
                       Inl e \<Rightarrow> info
                     | Inr n \<Rightarrow> if n > 45 then tencent_assign info qt n else info))))"

text \<open>
  \<open>fetch_stock_data\<close> after a cache miss: the initial record with its time stamp, the
  primary feed (a second time stamp when its fields are taken), \<open>date.today()\<close> and the
  secondary feed, then \<open>_set_cache\<close>.
\<close>

definition quote_primary :: "pylib \<Rightarrow> env \<Rightarrow> world \<Rightarrow> dict \<times> world" where
  "quote_primary lib e w =
     (let info0 = initial_stock_info (fmt_datetime lib (read_clock e w));
          w1 = tick w;
          r = sina_reply e (length (calls w1));
          w2 = issue ReqSina w1
      in case sina_fields r of
           None \<Rightarrow> (info0, w2)
         | Some flds \<Rightarrow> (sina_update info0 flds (fmt_datetime lib (read_clock e w2)), tick w2))"

definition quote_secondary :: "env \<Rightarrow> dict \<Rightarrow> world \<Rightarrow> dict \<times> world" where
  "quote_secondary e info w =
     (let w1 = tick w;
          r = qt_reply e (length (calls w1))
      in (tencent_update info r, issue ReqQt w1))"

definition fetch_stock_miss :: "pylib \<Rightarrow> env \<Rightarrow> world \<Rightarrow> pyval \<times> world" where
  "fetch_stock_miss lib e w =
     (case quote_primary lib e w of (info1, w1) \<Rightarrow>
      case quote_secondary e info1 w1 of (info2, w2) \<Rightarrow>
        (PDict info2, tick (store (read_clock e w2) ''stock_data'' (PDict info2) w2)))"

definition fetch_stock_data :: "pylib \<Rightarrow> env \<Rightarrow> world \<Rightarrow> pyval \<times> world" where
  "fetch_stock_data lib e w =
     (case cache_lookup e ''stock_data'' w of (cached, w1) \<Rightarrow>
        if pv_truthy cached then (cached, w1) else fetch_stock_miss lib e w1)"

text \<open>Reading a field of the returned quote: \<open>stock_data.get(k)\<close>.\<close>

definition quote_field :: "string \<Rightarrow> pyval \<Rightarrow> json option" where
  "quote_field k v = (case v of PDict d \<Rightarrow> map_of d k | _ \<Rightarrow> None)"

section \<open>K-line fetch\<close>

text \<open>
  The HTTP call and the row loop of \<open>fetch_kline_data\<close> are the environment's
  \<open>kline_reply\<close>: the contents of \<open>kline_list\<close> when the \<open>try\<close> block is left, for the
  period and count the request carries.
\<close>

definition kline_key :: "string \<Rightarrow> int \<Rightarrow> string" where
  "kline_key period count = ''kline_'' @ period @ ''_'' @ str_int count"

definition norm_period :: "string \<Rightarrow> string" where
  "norm_period period = (if period \<in> {''day'', ''week'', ''month''} then period else ''day'')"

definition norm_count :: "int \<Rightarrow> int" where
  "norm_count count = min (max count 10) 1500"

definition fetch_kline_miss :: "env \<Rightarrow> string \<Rightarrow> string \<Rightarrow> int \<Rightarrow> world \<Rightarrow> pyval \<times> world" where
  "fetch_kline_miss e cache_key period count w =
     (let w1 = tick w;
          kline_list = kline_reply e (length (calls w1)) period count;
          w2 = issue (ReqKline period count) w1
      in (PKlines kline_list, tick (store (read_clock e w2) cache_key (PKlines kline_list) w2)))"

definition fetch_kline_data :: "env \<Rightarrow> string \<Rightarrow> int \<Rightarrow> world \<Rightarrow> pyval \<times> world" where
  "fetch_kline_data e period count w =
     (let cache_key = kline_key period count
      in case cache_lookup e cache_key w of (cached, w1) \<Rightarrow>
           if pv_truthy cached then (cached, w1)
           else fetch_kline_miss e cache_key (norm_period period) (norm_count count) w1)"

section \<open>News aggregation: deduplicate, rank, truncate\<close>

text \<open>
  The tail of \<open>fetch_news\<close>, from the gathered list \<open>all_news\<close> on. The loop keeps the
  set \<open>seen\<close> of titles and appends an item whose title is new; \<open>list.sort\<close> is stable and
  its key is 0 for a stock item and 1 otherwise; the result is the slice \<open>[:25]\<close>.
\<close>

fun dedup_titles :: "string set \<Rightarrow> news list \<Rightarrow> news list" where
  "dedup_titles seen [] = []"
| "dedup_titles seen (n # ns) =
     (if n_title n \<notin> seen then n # dedup_titles (insert (n_title n) seen) ns
      else dedup_titles seen ns)"

definition tag_key :: "news \<Rightarrow> nat" where
  "tag_key x = (if n_tag x = Stock then 0 else 1)"

definition rank_news :: "news list \<Rightarrow> news list" where
  "rank_news all_news = take 25 (sort_key tag_key (dedup_titles {} all_news))"

text \<open>
  \<open>fetch_news\<close>: the searches, the rolling feed and the two RSS queries together are the
  environment's \<open>news_reply\<close>, the list \<open>all_news\<close> they leave behind.
\<close>

definition fetch_news_miss :: "env \<Rightarrow> world \<Rightarrow> pyval \<times> world" where
  "fetch_news_miss e w =
     (let all_news = news_reply e (length (calls w));
          w1 = issue ReqNews w;
          result = rank_news all_news
      in (PNews result, tick (store (read_clock e w1) ''news_data'' (PNews result) w1)))"

definition fetch_news :: "env \<Rightarrow> world \<Rightarrow> pyval \<times> world" where
  "fetch_news e w =
     (case cache_lookup e ''news_data'' w of (cached, w1) \<Rightarrow>
        if pv_truthy cached then (cached, w1) else fetch_news_miss e w1)"

text \<open>The specification's wording: the positions whose title did not occur earlier.\<close>

definition first_seen :: "news list \<Rightarrow> news list" where
  "first_seen xs =
     map (\<lambda>i. xs ! i)
       (filter (\<lambda>i. \<forall>j<i. n_title (xs ! j) \<noteq> n_title (xs ! i)) [0..<length xs])"

definition stock_first :: "news list \<Rightarrow> news list" where
  "stock_first xs = filter (\<lambda>x. n_tag x = Stock) xs @ filter (\<lambda>x. n_tag x = General) xs"

definition mk_news :: "string \<Rightarrow> string \<Rightarrow> news_tag \<Rightarrow> news" where
  "mk_news t s g =
     \<lparr>n_title = t, n_url = [], n_source = s, n_time = [], n_summary = [], n_tag = g,
      n_lang = None\<rparr>"

text \<open>Twenty-five stock items with titles \<open>x\<close>, \<open>xx\<close>, ..., then two general items titled \<open>dup\<close>.\<close>

definition crowded_news :: "news list" where
  "crowded_news =
     map (\<lambda>i. mk_news (replicate (Suc i) CHR ''x'') ''sina'' Stock) [0..<25]
     @ [mk_news ''dup'' ''sina'' General, mk_news ''dup'' ''google'' General]"

section \<open>Rating engine\<close>

text \<open>The five labels, from strong recommendation to avoidance, and the fixed texts.\<close>

definition label_strong :: string where
  "label_strong =
     [CHR 0xE5, CHR 0xBC, CHR 0xBA, CHR 0xE7, CHR 0x83, CHR 0x88, CHR 0xE6, CHR 0x8E] @
     [CHR 0xA8, CHR 0xE8, CHR 0x8D, CHR 0x90]"

definition label_buy :: string where
  "label_buy = [CHR 0xE6, CHR 0x8E, CHR 0xA8, CHR 0xE8, CHR 0x8D, CHR 0x90]"

definition label_neutral :: string where
  "label_neutral = [CHR 0xE4, CHR 0xB8, CHR 0xAD, CHR 0xE6, CHR 0x80, CHR 0xA7]"

definition label_caution :: string where
  "label_caution = [CHR 0xE8, CHR 0xB0, CHR 0xA8, CHR 0xE6, CHR 0x85, CHR 0x8E]"

definition label_avoid :: string where
  "label_avoid = [CHR 0xE5, CHR 0x9B, CHR 0x9E, CHR 0xE9, CHR 0x81, CHR 0xBF]"

definition valid_ratings :: "string list" where
  "valid_ratings = [label_strong, label_buy, label_neutral, label_caution, label_avoid]"

definition no_key_summary :: string where
  "no_key_summary =
     [CHR 0xE6, CHR 0x9C, CHR 0xAA, CHR 0xE9, CHR 0x85, CHR 0x8D, CHR 0xE7, CHR 0xBD] @
     [CHR 0xAE] @ '' AI '' @
     [CHR 0xE5, CHR 0xA4, CHR 0xA7, CHR 0xE6, CHR 0xA8, CHR 0xA1, CHR 0xE5, CHR 0x9E] @
     [CHR 0x8B] @ '' API Key'' @
     [CHR 0xEF, CHR 0xBC, CHR 0x8C, CHR 0xE6, CHR 0x97, CHR 0xA0, CHR 0xE6, CHR 0xB3] @
     [CHR 0x95, CHR 0xE7, CHR 0x94, CHR 0x9F, CHR 0xE6, CHR 0x88, CHR 0x90, CHR 0xE6] @
     [CHR 0x99, CHR 0xBA, CHR 0xE8, CHR 0x83, CHR 0xBD, CHR 0xE8, CHR 0xAF, CHR 0x84] @
     [CHR 0xE7, CHR 0xBA, CHR 0xA7, CHR 0xE3, CHR 0x80, CHR 0x82, CHR 0xE8, CHR 0xAF] @
     [CHR 0xB7, CHR 0xE5, CHR 0x9C, CHR 0xA8] @ '' .env '' @
     [CHR 0xE4, CHR 0xB8, CHR 0xAD, CHR 0xE9, CHR 0x85, CHR 0x8D, CHR 0xE7, CHR 0xBD] @
     [CHR 0xAE] @ '' LLM_API_KEY '' @
     [CHR 0xE5, CHR 0x90, CHR 0x8E, CHR 0xE9, CHR 0x87, CHR 0x8D, CHR 0xE8, CHR 0xAF] @
     [CHR 0x95, CHR 0xE3, CHR 0x80, CHR 0x82]"

definition cannot_analyse :: string where
  "cannot_analyse =
     [CHR 0xE6, CHR 0x97, CHR 0xA0, CHR 0xE6, CHR 0xB3, CHR 0x95, CHR 0xE5, CHR 0x88] @
     [CHR 0x86, CHR 0xE6, CHR 0x9E, CHR 0x90]"

definition failure_summary :: string where
  "failure_summary =
     ''AI '' @
     [CHR 0xE8, CHR 0xAF, CHR 0x84, CHR 0xE7, CHR 0xBA, CHR 0xA7, CHR 0xE7, CHR 0x94] @
     [CHR 0x9F, CHR 0xE6, CHR 0x88, CHR 0x90, CHR 0xE5, CHR 0xA4, CHR 0xB1, CHR 0xE8] @
     [CHR 0xB4, CHR 0xA5, CHR 0xEF, CHR 0xBC, CHR 0x8C, CHR 0xE8, CHR 0xAF, CHR 0xB7] @
     [CHR 0xE7, CHR 0xA8, CHR 0x8D, CHR 0xE5, CHR 0x90, CHR 0x8E, CHR 0xE9, CHR 0x87] @
     [CHR 0x8D, CHR 0xE8, CHR 0xAF, CHR 0x95, CHR 0xE3, CHR 0x80, CHR 0x82]"

definition default_factors :: json where
  "default_factors =
     JObj [(''technical'', SENTINEL), (''fundamental'', SENTINEL), (''sentiment'', SENTINEL)]"

definition no_key_fallback :: "string \<Rightarrow> dict" where
  "no_key_fallback today =
     [(''date'', JStr today), (''rating'', JStr label_neutral), (''score'', JInt 50),
      (''summary'', JStr no_key_summary),
      (''factors'', JObj [(''technical'', JStr cannot_analyse),
         (''fundamental'', JStr cannot_analyse), (''sentiment'', JStr cannot_analyse)])]"

definition failure_fallback :: "string \<Rightarrow> dict" where
  "failure_fallback today =
     [(''date'', JStr today), (''rating'', JStr label_neutral), (''score'', JInt 50),
      (''summary'', JStr failure_summary), (''factors'', default_factors)]"

text \<open>
  The validation of the parsed object, lines 857 to 870: \<open>rating_data.get\<close> needs a
  dict; the label test is list membership; \<open>int(...)\<close> may raise.
\<close>

fun validate_rating :: "pylib \<Rightarrow> string \<Rightarrow> json \<Rightarrow> py_error + dict" where
  "validate_rating lib today (JObj kvs) =
     ebind (py_get (JObj kvs) ''rating'' JNull) (\<lambda>r.
       let d1 = (if r \<notin> set (map JStr valid_ratings)
                 then AList.update ''rating'' (JStr label_neutral) kvs else kvs)
       in ebind (py_get (JObj d1) ''score'' (JInt 50)) (\<lambda>sv.
          ebind (py_int lib sv) (\<lambda>score.
            let d2 = AList.update ''score'' (JInt (max 0 (min 100 score))) d1;
                d3 = AList.update ''date'' (JStr today) d2
            in Inr (if ''factors'' \<notin> set (map fst d3)
                    then AList.update ''factors'' default_factors d3 else d3))))"
| "validate_rating lib today _ = Inl AttributeError"

text \<open>
  The text of the reply: \<open>choices[0].message.content\<close>, or the first truthy \<open>text\<close> of
  a dict in \<open>message.parts\<close> when the content is empty.
\<close>

fun first_text_part :: "json list \<Rightarrow> json option" where
  "first_text_part [] = None"
| "first_text_part (JObj kvs # rest) =
     (case map_of kvs ''text'' of
        Some t \<Rightarrow> if truthy t then Some t else first_text_part rest
      | None \<Rightarrow> first_text_part rest)"
| "first_text_part (_ # rest) = first_text_part rest"

definition message_content :: "json \<Rightarrow> py_error + json" where
  "message_content body =
     ebind (py_get body ''choices'' (JArr [JObj []])) (\<lambda>choices.
     ebind (py_index choices 0) (\<lambda>choice.
     ebind (py_get choice ''message'' (JObj [])) (\<lambda>msg.
     ebind (py_get msg ''content'' JNull) (\<lambda>c.
       let content = (if truthy c then c else JStr [])
       in if truthy content then Inr content else
          ebind (py_contains ''parts'' msg) (\<lambda>has_parts.
            if \<not> has_parts then Inr content else
            ebind (py_getitem msg ''parts'') (\<lambda>ps.
            ebind (py_iter ps) (\<lambda>parts.
              Inr (case first_text_part parts of Some t \<Rightarrow> t | None \<Rightarrow> content))))))))"

definition py_strip :: "pylib \<Rightarrow> json \<Rightarrow> py_error + string" where
  "py_strip lib v = (case v of JStr s \<Rightarrow> Inr (str_strip lib s) | _ \<Rightarrow> Inl AttributeError)"

definition strip_fence :: "pylib \<Rightarrow> string \<Rightarrow> string" where
  "strip_fence lib text =
     (if is_substr [CHR 0x60, CHR 0x60, CHR 0x60] text
      then (case re_fence lib text of Some inner \<Rightarrow> inner | None \<Rightarrow> text)
      else text)"

definition parse_rating :: "pylib \<Rightarrow> string \<Rightarrow> string \<Rightarrow> py_error + dict" where
  "parse_rating lib today result_text =
     (if result_text = [] then Inl EmptyContent
      else case json_loads lib (str_strip lib (strip_fence lib result_text)) of
             None \<Rightarrow> Inl JSONDecodeError
           | Some rating_data \<Rightarrow> validate_rating lib today rating_data)"

definition rating_steps :: "pylib \<Rightarrow> string \<Rightarrow> http_json \<Rightarrow> py_error + dict" where
  "rating_steps lib today reply =
     (case reply of
        JsonFail \<Rightarrow> Inl TransportError
      | JsonResp status body \<Rightarrow>
          if status = 200 then
            (case body of
               None \<Rightarrow> Inl JSONDecodeError
             | Some b \<Rightarrow>
                 ebind (message_content b) (\<lambda>content.
                 ebind (py_strip lib content) (\<lambda>result_text.
                   parse_rating lib today result_text)))
          else Inl (ApiHttpError status))"

text \<open>
  \<open>get_rating\<close>. The three fetches of \<open>asyncio.gather\<close> are coroutines whose upstream
  requests the program interleaves; here they run one after the other, so the order of
  their requests in \<open>calls\<close> is the model's and not the program's. They touch three
  different cache keys, and nothing stated below depends on that order: the statements
  speak of the number of requests, of the requests to the model endpoint, and of the
  rating memo, which no fetch touches. What the fetches return goes into the prompt only,
  and the prompt into the request, whose reply is the environment's.
\<close>

definition gather_inputs :: "pylib \<Rightarrow> env \<Rightarrow> world \<Rightarrow> world" where
  "gather_inputs lib e w =
     snd (fetch_kline_data e ''day'' 30 (snd (fetch_news e (snd (fetch_stock_data lib e w)))))"

definition memoize :: "string \<Rightarrow> dict \<Rightarrow> world \<Rightarrow> world" where
  "memoize today r w = w\<lparr>rating_cache := (rating_cache w)(today \<mapsto> r)\<rparr>"

definition rate_today :: "pylib \<Rightarrow> env \<Rightarrow> string \<Rightarrow> world \<Rightarrow> dict \<times> world" where
  "rate_today lib e today w =
     (let w1 = gather_inputs lib e w
      in if api_key e = [] then (no_key_fallback today, memoize today (no_key_fallback today) w1)
         else
           (let reply = llm_reply e (length (calls w1));
                w2 = issue ReqLLM w1
            in case rating_steps lib today reply of
                 Inr rating_data \<Rightarrow> (rating_data, memoize today rating_data w2)
               | Inl err \<Rightarrow> (failure_fallback today, w2)))"

definition get_rating :: "pylib \<Rightarrow> env \<Rightarrow> world \<Rightarrow> dict \<times> world" where
  "get_rating lib e w =
     (let today = fmt_date lib (read_clock e w)
      in case rating_cache w today of
           Some r \<Rightarrow> (r, tick w)
         | None \<Rightarrow> rate_today lib e today (tick w))"

section \<open>Streaming relay\<close>

text \<open>
  The consumption of a status-200 event stream, the same loop in \<open>_stream_llm\<close> and in
  \<open>stream_ai_analysis\<close>. The stream is its lines and, when the transport breaks after
  them, the exception that ends it. The loop's own handler catches \<open>JSONDecodeError\<close>,
  \<open>KeyError\<close> and \<open>IndexError\<close>; any other exception leaves the loop.
\<close>

definition caught_in_loop :: "py_error \<Rightarrow> bool" where
  "caught_in_loop err = (err = JSONDecodeError \<or> err = KeyError \<or> err = IndexError)"

definition delta_content :: "pylib \<Rightarrow> string \<Rightarrow> py_error + json option" where
  "delta_content lib data_str =
     (case json_loads lib data_str of
        None \<Rightarrow> Inl JSONDecodeError
      | Some chunk \<Rightarrow>
          ebind (py_getitem chunk ''choices'') (\<lambda>choices.
          ebind (py_index choices 0) (\<lambda>choice.
          ebind (py_getitem choice ''delta'') (\<lambda>delta.
          ebind (py_contains ''content'' delta) (\<lambda>has_content.
            if has_content then ebind (py_getitem delta ''content'') (\<lambda>c. Inr (Some c))
            else Inr None)))))"

fun consume_lines :: "pylib \<Rightarrow> py_error option \<Rightarrow> string list \<Rightarrow> json list \<times> py_error option" where
  "consume_lines lib tail [] = ([], tail)"
| "consume_lines lib tail (line # rest) =
     (if startswith ''data: '' line then
        (let data_str = drop 6 line
         in if str_strip lib data_str = ''[DONE]'' then ([], None)
            else
              (case delta_content lib data_str of
                 Inl err \<Rightarrow>
                   if caught_in_loop err then consume_lines lib tail rest else ([], Some err)
               | Inr None \<Rightarrow> consume_lines lib tail rest
               | Inr (Some c) \<Rightarrow>
                   (case consume_lines lib tail rest of (fs, r) \<Rightarrow> (c # fs, r))))
      else consume_lines lib tail rest)"

text \<open>
  What \<open>_stream_llm\<close> yields on a status-200 stream: the fragments of the loop and,
  after an exception, its diagnostic fragment. (\<open>stream_ai_analysis\<close> yields its
  fallback report there instead.)
\<close>

definition diag_head :: string where
  "diag_head =
     [CHR 0x0A] @ ''> '' @ [CHR 0xE2, CHR 0x9A, CHR 0xA0, CHR 0xEF, CHR 0xB8, CHR 0x8F] @
     '' AI'' @
     [CHR 0xE8, CHR 0xB0, CHR 0x83, CHR 0xE7, CHR 0x94, CHR 0xA8, CHR 0xE5, CHR 0xBC] @
     [CHR 0x82, CHR 0xE5, CHR 0xB8, CHR 0xB8, CHR 0xEF, CHR 0xBC, CHR 0x9A]"

definition stream_llm_ok :: "pylib \<Rightarrow> py_error option \<Rightarrow> string list \<Rightarrow> json list" where
  "stream_llm_ok lib tail lines =
     (case consume_lines lib tail lines of
        (fs, None) \<Rightarrow> fs
      | (fs, Some err) \<Rightarrow>
          fs @ [JStr (diag_head @ str_take 100 (exc_str lib err) @ [CHR 0x0A])])"

section \<open>Sample worlds\<close>

text \<open>
  The world at process start, a library stand-in whose parser, pattern search and
  date formats are constant, and environments for concrete runs: the clock advances
  one second per reading. In \<open>quiet_env\<close> every upstream call fails or returns nothing. In
  \<open>half_env\<close> the primary quote feed fails and the secondary feed answers with a
  46-element \<open>qt\<close> array; its K-line reply names the request it answers.
\<close>

definition plain_lib :: pylib where
  "plain_lib =
     \<lparr>json_loads = (\<lambda>s. None), str_strip = (\<lambda>s. s), int_of_str = (\<lambda>s. None),
      re_fence = (\<lambda>s. None), fmt_date = (\<lambda>t. ''2024-05-06''),
      fmt_datetime = (\<lambda>t. ''2024-05-06 10:00:00''), exc_str = (\<lambda>e. ''error'')\<rparr>"

definition empty_world :: world where
  "empty_world = \<lparr>cache = Map.empty, rating_cache = Map.empty, ticks = 0, calls = []\<rparr>"

definition quiet_env :: env where
  "quiet_env =
     \<lparr>clock = (\<lambda>n. real n), sina_reply = (\<lambda>n. TextFail), qt_reply = (\<lambda>n. JsonFail),
      kline_reply = (\<lambda>n p c. []), news_reply = (\<lambda>n. []), llm_reply = (\<lambda>n. JsonFail),
      api_key = ''sk-test''\<rparr>"

definition mk_kline :: "string \<Rightarrow> kline" where
  "mk_kline d =
     \<lparr>k_date = d, k_open = Finite 380, k_close = Finite 385, k_high = Finite 390,
      k_low = Finite 379, k_volume = Finite 1000\<rparr>"

definition qt_sample :: "json list" where
  "qt_sample =
     (replicate 46 (JStr ''0''))
       [3 := JStr ''388.20'', 39 := JStr ''21.53'', 45 := JStr ''35321.8'']"

definition qt_payload :: json where
  "qt_payload =
     JObj [(''data'', JObj [(''hk00700'', JObj [(''qt'', JObj [(''hk00700'', JArr qt_sample)])])])]"

definition half_env :: env where
  "half_env =
     \<lparr>clock = (\<lambda>n. real n), sina_reply = (\<lambda>n. TextFail),
      qt_reply = (\<lambda>n. JsonResp 200 (Some qt_payload)),
      kline_reply = (\<lambda>n p c. [mk_kline (str_nat n)]), news_reply = (\<lambda>n. []),
      llm_reply = (\<lambda>n. JsonFail), api_key = ''sk-test''\<rparr>"

text \<open>What a guarded read \<open>qt[i] if len(qt) > i else "--"\<close> yields on a list.\<close>

definition qt_val :: "json list \<Rightarrow> nat \<Rightarrow> json" where
  "qt_val qt i = (if i < length qt then qt ! i else SENTINEL)"

text \<open>The keys of the initial quote record.\<close>

definition quote_keys :: "string set" where
  "quote_keys = {''name'', ''code'', ''current_price'', ''change'', ''change_percent'', ''open'', ''high'',
     ''low'', ''prev_close'', ''volume'', ''turnover'', ''market_cap'', ''pe_ratio'', ''52w_high'',
     ''52w_low'', ''updated_at''}"

text \<open>
  \<open>stale_world\<close>: after a K-line fetch and a news fetch that both came back empty.
  \<open>warm_world\<close>: after a day K-line fetch of 60 points that returned one point.
\<close>

definition stale_world :: world where
  "stale_world = snd (fetch_news quiet_env (snd (fetch_kline_data quiet_env ''day'' 60 empty_world)))"

definition warm_world :: world where
  "warm_world = snd (fetch_kline_data half_env ''day'' 60 empty_world)"












text \<open>
  Two stream chunks and a parser stand-in that knows them: a chunk whose \<open>delta\<close> is
  null, and a chunk that carries the content \<open>hi\<close>.
\<close>

definition chunk_null_delta :: string where
  \<open>chunk_null_delta = ''{"choices":[{"delta":null}]}''\<close>

definition chunk_hi :: string where
  \<open>chunk_hi = ''{"choices":[{"delta":{"content":"hi"}}]}''\<close>

definition stream_lib :: pylib where
  "stream_lib =
     plain_lib\<lparr>json_loads := (\<lambda>s.
       if s = chunk_null_delta then Some (JObj [(''choices'', JArr [JObj [(''delta'', JNull)]])])
       else if s = chunk_hi
         then Some (JObj [(''choices'', JArr [JObj [(''delta'', JObj [(''content'', JStr ''hi'')])]])])
       else None)\<rparr>"

section \<open>Properties of the TTL cache\<close>

lemma run_sets_other_key:
  "key \<notin> set (map (\<lambda>(t, k, v). k) ops) \<Longrightarrow> run_sets c ops key = c key"
  by (induction ops arbitrary: c) (auto simp: set_cache_def)

lemma cache_lookup_fst: "fst (cache_lookup e key w) = get_cache (cache w) (read_clock e w) key"
  by (simp add: cache_lookup_def get_cache_def)

lemma cache_lookup_snd:
  "calls (snd (cache_lookup e key w)) = calls w"
  "cache (snd (cache_lookup e key w)) = cache w"
  "rating_cache (snd (cache_lookup e key w)) = rating_cache w"
  by (simp_all add: cache_lookup_def tick_def)

lemma cache_lookup_hit:
  "pv_truthy (get_cache (cache w) (read_clock e w) key) \<Longrightarrow>
   cache_lookup e key w = (get_cache (cache w) (read_clock e w) key, tick w)"
  by (auto simp: cache_lookup_def get_cache_def)

text \<open>
  Claim C4. A key that no \<open>_set_cache\<close> call of the history named reads as absent. After
  \<open>_set_cache(key, v)\<close> at time \<open>t0\<close>, followed by any later calls of \<open>_set_cache\<close>
  for other keys, \<open>_get_cache(key)\<close> at any time \<open>now\<close> with \<open>t0 \<le> now < t0 + 300\<close>
  returns exactly \<open>v\<close>, and at any time \<open>now \<ge> t0 + 300\<close> it returns \<open>None\<close>. Whatever
  \<open>_get_cache\<close> returns other than \<open>None\<close> is the data of an entry stored less than 300
  seconds before the read. A lookup leaves the store as it is, so an expired entry stays
  in it, and a later \<open>_set_cache\<close> of the key replaces the entry.
\<close>

theorem ttl_cache_contract:
  "(key \<notin> set (map (\<lambda>(t, k, v). k) ops) \<longrightarrow> get_cache (run_sets Map.empty ops) now key = PNone)
   \<and> (key \<notin> set (map (\<lambda>(t, k, v). k) ops) \<and> t0 \<le> now \<and> now < t0 + 300 \<longrightarrow>
        get_cache (run_sets (set_cache c t0 key v) ops) now key = v)
   \<and> (key \<notin> set (map (\<lambda>(t, k, v). k) ops) \<and> t0 + 300 \<le> now \<longrightarrow>
        get_cache (run_sets (set_cache c t0 key v) ops) now key = PNone)
   \<and> (get_cache c now key \<noteq> PNone \<longrightarrow>
        (\<exists>ts. c key = Some (ts, get_cache c now key) \<and> now - ts < 300))
   \<and> cache (snd (cache_lookup e key w)) = cache w
   \<and> (key \<notin> set (map (\<lambda>(t, k, v). k) ops) \<longrightarrow>
        run_sets (set_cache (set_cache c t0 key v) t1 key v') ops key = Some (t1, v'))"
proof -
  have a: "key \<notin> set (map (\<lambda>(t, k, v). k) ops) \<longrightarrow>
      get_cache (run_sets Map.empty ops) now key = PNone"
    by (simp add: get_cache_def run_sets_other_key)
  have b: "key \<notin> set (map (\<lambda>(t, k, v). k) ops) \<and> t0 \<le> now \<and> now < t0 + 300 \<longrightarrow>
        get_cache (run_sets (set_cache c t0 key v) ops) now key = v"
    by (simp add: get_cache_def run_sets_other_key set_cache_def CACHE_TTL_def)
  have c: "key \<notin> set (map (\<lambda>(t, k, v). k) ops) \<and> t0 + 300 \<le> now \<longrightarrow>
        get_cache (run_sets (set_cache c t0 key v) ops) now key = PNone"
    by (simp add: get_cache_def run_sets_other_key set_cache_def CACHE_TTL_def)
  have d: "get_cache c now key \<noteq> PNone \<longrightarrow>
      (\<exists>ts. c key = Some (ts, get_cache c now key) \<and> now - ts < 300)"
    by (auto simp: get_cache_def CACHE_TTL_def split: option.splits if_splits)
  have f: "cache (snd (cache_lookup e key w)) = cache w"
    by (rule cache_lookup_snd)
  have g: "key \<notin> set (map (\<lambda>(t, k, v). k) ops) \<longrightarrow>
        run_sets (set_cache (set_cache c t0 key v) t1 key v') ops key = Some (t1, v')"
    by (simp add: run_sets_other_key set_cache_def)
  from a b c d f g show ?thesis by (intro conjI)
qed

theorem ttl_cache_contract_witness:
  "get_cache (run_sets Map.empty [(0, ''news_data'', PNews [])]) 10 ''stock_data'' = PNone
   \<and> get_cache (run_sets (set_cache Map.empty 100 ''stock_data'' (PDict [(''name'', JStr ''x'')]))
        [(102, ''news_data'', PNews []), (250, ''kline_day_60'', PKlines [])]) 399 ''stock_data''
       = PDict [(''name'', JStr ''x'')]
   \<and> get_cache (run_sets (set_cache Map.empty 100 ''stock_data'' (PDict [(''name'', JStr ''x'')]))
        [(102, ''news_data'', PNews []), (250, ''kline_day_60'', PKlines [])]) 400 ''stock_data''
       = PNone"
proof -
  have k: "''stock_data'' \<notin> set (map (\<lambda>(t, k, v). k) [(0 :: real, ''news_data'', PNews [])])"
    "''stock_data'' \<notin> set (map (\<lambda>(t, k, v). k)
        [(102 :: real, ''news_data'', PNews []), (250, ''kline_day_60'', PKlines [])])"
    by simp_all
  have t: "(100 :: real) \<le> 399 \<and> (399 :: real) < 100 + 300" "(100 :: real) + 300 \<le> 400"
    by simp_all
  note T1 = ttl_cache_contract [of "''stock_data''" "[(0, ''news_data'', PNews [])]" 10,
      THEN conjunct1, rule_format, OF k(1)]
  note T2 = ttl_cache_contract [of "''stock_data''"
      "[(102, ''news_data'', PNews []), (250, ''kline_day_60'', PKlines [])]" 399 100,
      THEN conjunct2, THEN conjunct1, rule_format, OF conjI [OF k(2) t(1)]]
  note T3 = ttl_cache_contract [of "''stock_data''"
      "[(102, ''news_data'', PNews []), (250, ''kline_day_60'', PKlines [])]" 400 100,
      THEN conjunct2, THEN conjunct2, THEN conjunct1, rule_format, OF conjI [OF k(2) t(2)]]
  from T1 T2 T3 show ?thesis by (intro conjI)
qed

section \<open>Properties of the news aggregation\<close>

lemma insort_two:
  "\<forall>a\<in>set A. tag_key a = 0 \<Longrightarrow> \<forall>b\<in>set B. tag_key b = 1 \<Longrightarrow>
   insort_key tag_key x (A @ B) = (if tag_key x = 0 then x # A @ B else A @ x # B)"
proof (induction A)
  case Nil
  then show ?case by (cases B) (auto simp: tag_key_def)
next
  case (Cons a A)
  then show ?case by (simp add: tag_key_def)
qed

lemma sort_key_stock_first: "sort_key tag_key xs = stock_first xs"
proof (induction xs)
  case Nil
  show ?case by (simp add: stock_first_def)
next
  case (Cons x xs)
  have "sort_key tag_key (x # xs) = insort_key tag_key x (stock_first xs)"
    using Cons by simp
  also have "\<dots> = stock_first (x # xs)"
    unfolding stock_first_def
    by (subst insort_two) (auto simp: tag_key_def intro: news_tag.exhaust)
  finally show ?case .
qed

lemma dedup_titles_filter:
  "dedup_titles seen xs =
     map (\<lambda>i. xs ! i)
       (filter (\<lambda>i. n_title (xs ! i) \<notin> seen \<and> (\<forall>j<i. n_title (xs ! j) \<noteq> n_title (xs ! i)))
          [0..<length xs])"
proof (induction xs arbitrary: seen)
  case Nil
  show ?case by simp
next
  case (Cons x xs)
  let ?P = "\<lambda>ys S i. n_title (ys ! i) \<notin> S \<and> (\<forall>j<i. n_title (ys ! j) \<noteq> n_title (ys ! i))"
  have up: "[0..<length (x # xs)] = 0 # map Suc [0..<length xs]"
    by (simp add: upt_conv_Cons map_Suc_upt del: upt_Suc)
  have tl: "map (\<lambda>i. (x # xs) ! i) (filter (?P (x # xs) seen) (map Suc [0..<length xs]))
      = map (\<lambda>i. xs ! i) (filter (\<lambda>i. ?P xs seen i \<and> n_title x \<noteq> n_title (xs ! i)) [0..<length xs])"
    by (simp add: filter_map o_def All_less_Suc2 conj_ac)
  show ?case
  proof (cases "n_title x \<in> seen")
    case True
    have "filter (\<lambda>i. ?P xs seen i \<and> n_title x \<noteq> n_title (xs ! i)) [0..<length xs]
        = filter (?P xs seen) [0..<length xs]"
      using True by (intro filter_cong) auto
    with True tl show ?thesis
      unfolding up by (simp add: Cons del: upt_Suc)
  next
    case False
    have "filter (\<lambda>i. ?P xs seen i \<and> n_title x \<noteq> n_title (xs ! i)) [0..<length xs]
        = filter (?P xs (insert (n_title x) seen)) [0..<length xs]"
      by (intro filter_cong) auto
    with False tl show ?thesis
      unfolding up by (simp add: Cons del: upt_Suc)
  qed
qed

lemma dedup_first_seen: "dedup_titles {} xs = first_seen xs"
  by (simp add: dedup_titles_filter first_seen_def)

lemma dedup_titles_fresh: "x \<in> set (dedup_titles seen xs) \<Longrightarrow> n_title x \<notin> seen \<and> x \<in> set xs"
  by (induction xs arbitrary: seen) (auto split: if_splits)

lemma dedup_titles_distinct: "distinct (map n_title (dedup_titles seen xs))"
  by (induction xs arbitrary: seen) (auto dest: dedup_titles_fresh)

lemma dedup_titles_find:
  "x \<in> set (dedup_titles seen xs) \<Longrightarrow> find (\<lambda>y. n_title y = n_title x) xs = Some x"
proof (induction xs arbitrary: seen)
  case Nil
  then show ?case by simp
next
  case (Cons n ns)
  show ?case
  proof (cases "x = n \<and> n_title n \<notin> seen")
    case True
    then show ?thesis by simp
  next
    case False
    then obtain S where mem: "x \<in> set (dedup_titles S ns)" and S: "n_title n \<in> S"
      using Cons.prems by (auto split: if_splits)
    from dedup_titles_fresh [OF mem] S have "n_title n \<noteq> n_title x" by auto
    with Cons.IH [OF mem] show ?thesis by simp
  qed
qed

lemma dedup_titles_all: "n_title ` set (dedup_titles seen xs) = n_title ` set xs - seen"
  by (induction xs arbitrary: seen) auto

lemma stock_first_set: "set (stock_first xs) = set xs"
  by (auto simp: stock_first_def intro: news_tag.exhaust)

lemma stock_first_length: "length (stock_first xs) = length xs"
proof -
  have "filter (\<lambda>x. n_tag x = General) xs = filter (\<lambda>x. \<not> n_tag x = Stock) xs"
    by (intro filter_cong) (auto intro: news_tag.exhaust)
  then show ?thesis
    by (simp add: stock_first_def sum_length_filter_compl)
qed

lemma stock_first_distinct:
  assumes "distinct (map n_title xs)"
  shows "distinct (map n_title (stock_first xs))"
proof -
  from assms have inj: "inj_on n_title (set xs)" and d: "distinct xs"
    by (simp_all add: distinct_map)
  have "distinct (stock_first xs)"
    using d by (auto simp: stock_first_def)
  moreover have "inj_on n_title (set (stock_first xs))"
    using inj by (simp add: stock_first_set)
  ultimately show ?thesis by (simp add: distinct_map)
qed

lemma stock_first_order:
  assumes "i < j" "j < length (take m (stock_first xs))"
    and "n_tag (take m (stock_first xs) ! j) = Stock"
  shows "n_tag (take m (stock_first xs) ! i) = Stock"
proof -
  let ?A = "filter (\<lambda>x. n_tag x = Stock) xs" and ?B = "filter (\<lambda>x. n_tag x = General) xs"
  have L: "stock_first xs = ?A @ ?B" by (simp add: stock_first_def)
  have j: "j < length (?A @ ?B)" "j < m" using assms(2) by (simp_all add: L)
  have tj: "take m (stock_first xs) ! j = (?A @ ?B) ! j"
    and ti: "take m (stock_first xs) ! i = (?A @ ?B) ! i"
    using j assms(1) unfolding L by (simp_all only: nth_take less_trans [OF assms(1)])
  have "j < length ?A"
  proof (rule ccontr)
    assume "\<not> j < length ?A"
    then have "(?A @ ?B) ! j = ?B ! (j - length ?A)" "j - length ?A < length ?B"
      using j by (auto simp: nth_append)
    then have "(?A @ ?B) ! j \<in> set ?B" by (metis nth_mem)
    then have "n_tag ((?A @ ?B) ! j) = General" by simp
    with assms(3) show False unfolding tj by simp
  qed
  with assms(1) have "i < length ?A" by simp
  then have "(?A @ ?B) ! i = ?A ! i" "?A ! i \<in> set ?A"
    by (simp_all only: nth_append nth_mem if_True)
  then have "n_tag ((?A @ ?B) ! i) = Stock" by simp
  then show ?thesis unfolding ti .
qed

text \<open>
  Claim C3, amended. For every gathered list the output of the aggregation is the list of
  first-seen items per title, stably partitioned with the stock items before the general
  ones, cut to its first 25 items. So no general item stands before a stock item, no two
  output items share a title, and an output item is the first input item with its title.
  Two input items with one title give at most one output item; they give exactly one when
  the deduplicated list has at most 25 items, so that the cut removes nothing.
\<close>

theorem news_rank_pipeline:
  "rank_news xs = take 25 (stock_first (first_seen xs))
   \<and> (\<forall>i j. i < j \<and> j < length (rank_news xs) \<and> n_tag (rank_news xs ! j) = Stock
         \<longrightarrow> n_tag (rank_news xs ! i) = Stock)
   \<and> distinct (map n_title (rank_news xs))
   \<and> (\<forall>x \<in> set (rank_news xs). find (\<lambda>y. n_title y = n_title x) xs = Some x)
   \<and> (length (first_seen xs) \<le> 25 \<longrightarrow> n_title ` set (rank_news xs) = n_title ` set xs)"
proof -
  have eq: "rank_news xs = take 25 (stock_first (dedup_titles {} xs))"
    by (simp add: rank_news_def sort_key_stock_first)
  have a: "rank_news xs = take 25 (stock_first (first_seen xs))"
    using eq by (simp add: dedup_first_seen)
  have b: "\<forall>i j. i < j \<and> j < length (rank_news xs) \<and> n_tag (rank_news xs ! j) = Stock
         \<longrightarrow> n_tag (rank_news xs ! i) = Stock"
    unfolding eq using stock_first_order by blast
  have "distinct (take 25 (map n_title (stock_first (dedup_titles {} xs))))"
    by (intro distinct_take stock_first_distinct dedup_titles_distinct)
  then have c: "distinct (map n_title (rank_news xs))"
    by (simp add: eq take_map)
  have d: "\<forall>x \<in> set (rank_news xs). find (\<lambda>y. n_title y = n_title x) xs = Some x"
  proof
    fix x assume "x \<in> set (rank_news xs)"
    then have "x \<in> set (stock_first (dedup_titles {} xs))"
      unfolding eq by (rule in_set_takeD)
    then have "x \<in> set (dedup_titles {} xs)" by (simp add: stock_first_set)
    then show "find (\<lambda>y. n_title y = n_title x) xs = Some x" by (rule dedup_titles_find)
  qed
  have e: "length (first_seen xs) \<le> 25 \<longrightarrow> n_title ` set (rank_news xs) = n_title ` set xs"
  proof
    assume "length (first_seen xs) \<le> 25"
    then have "rank_news xs = stock_first (dedup_titles {} xs)"
      by (simp add: eq dedup_first_seen stock_first_length)
    then show "n_title ` set (rank_news xs) = n_title ` set xs"
      by (simp add: stock_first_set dedup_titles_all)
  qed
  from a b c d e show ?thesis by blast
qed

theorem news_rank_pipeline_witness:
  "rank_news [mk_news ''a'' ''sina'' General, mk_news ''b'' ''sina'' Stock, mk_news ''a'' ''google'' Stock]
     = [mk_news ''b'' ''sina'' Stock, mk_news ''a'' ''sina'' General]
   \<and> length (first_seen [mk_news ''a'' ''sina'' General, mk_news ''b'' ''sina'' Stock,
        mk_news ''a'' ''google'' Stock]) \<le> 25
   \<and> n_title ` set (rank_news [mk_news ''a'' ''sina'' General, mk_news ''b'' ''sina'' Stock,
        mk_news ''a'' ''google'' Stock]) = {''a'', ''b''}"
  using news_rank_pipeline [of "[mk_news ''a'' ''sina'' General, mk_news ''b'' ''sina'' Stock,
        mk_news ''a'' ''google'' Stock]"]
  by (simp add: first_seen_def stock_first_def mk_news_def upt_rec All_less_Suc insert_commute)

text \<open>
  Claim C3 as stated fails: of 27 gathered items the last two share the title \<open>dup\<close> and
  differ in source; the first-seen of them is the 26th item after ranking and is cut off,
  so the output holds no item of that title, not exactly one.
\<close>

theorem news_exactly_one_counterexample:
  "length crowded_news = 27
   \<and> n_title (crowded_news ! 25) = ''dup'' \<and> n_title (crowded_news ! 26) = ''dup''
   \<and> n_source (crowded_news ! 25) \<noteq> n_source (crowded_news ! 26)
   \<and> filter (\<lambda>x. n_title x = ''dup'') (rank_news crowded_news) = []"
  by (simp add: rank_news_def crowded_news_def mk_news_def tag_key_def upt_rec nth_append)

section \<open>Properties of the quote fetch\<close>

lemma assign_fields_list:
  "assign_fields (JArr qt) (length qt) info tbl =
     (dict_update info (map (\<lambda>ki. (fst ki, qt_val qt (snd ki))) tbl), None)"
  by (induction tbl arbitrary: info) (auto simp: qt_item_def qt_val_def dict_update_def)


lemma map_of_dict_update_Cons:
  "map_of (dict_update d ((k, v) # kvs)) = map_of (dict_update (AList.update k v d) kvs)"
  by (simp add: dict_update_def)


lemma map_of_dict_update_Nil: "map_of (dict_update d []) = map_of d"
  by (simp add: dict_update_def)


lemma tencent_assign_list:
  assumes "map_of info ''current_price'' = Some SENTINEL" "45 < length qt"
  shows "map_of (tencent_assign info (JArr qt) (length qt)) =
     (map_of info)(''current_price'' \<mapsto> qt ! 3, ''market_cap'' \<mapsto> qt_val qt 45, ''pe_ratio'' \<mapsto> qt_val qt 39,
        ''52w_high'' \<mapsto> qt_val qt 48, ''52w_low'' \<mapsto> qt_val qt 49,
        ''dividend_yield'' \<mapsto> qt_val qt 47, ''pb_ratio'' \<mapsto> qt_val qt 51,
        ''turnover_rate'' \<mapsto> qt_val qt 50, ''amplitude'' \<mapsto> qt_val qt 43,
        ''total_shares'' \<mapsto> qt_val qt 69, ''float_shares'' \<mapsto> qt_val qt 70,
        ''nav_per_share'' \<mapsto> qt_val qt 72)"
  using assms
  by (simp add: tencent_assign_def assign_fields_list qt_table_def update_conv'
      map_of_dict_update_Cons map_of_dict_update_Nil del: assign_fields.simps)



lemma alist_update_names: "fst ` set (AList.update k v info) = insert k (fst ` set info)"
proof -
  have "set (map fst (AList.update k v info)) = insert k (set (map fst info))"
    by (auto simp: AList.update_keys simp del: set_map)
  then show ?thesis by simp
qed


lemma assign_fields_keys:
  "fst ` set info \<subseteq> fst ` set (fst (assign_fields qt n info tbl))"
proof (induction tbl arbitrary: info)
  case Nil
  show ?case by simp
next
  case (Cons ki tbl)
  obtain k i where ki: "ki = (k, i)" by (cases ki)
  show ?case
  proof (cases "qt_item qt n i")
    case (Inl e)
    then show ?thesis by (simp add: ki)
  next
    case (Inr v)
    have "fst ` set info \<subseteq> fst ` set (AList.update k v info)"
      unfolding alist_update_names by blast
    also have "\<dots> \<subseteq> fst ` set (fst (assign_fields qt n (AList.update k v info) tbl))"
      by (rule Cons.IH)
    finally show ?thesis by (simp add: ki Inr)
  qed
qed


lemma tencent_assign_keys: "fst ` set info \<subseteq> fst ` set (tencent_assign info qt n)"
proof -
  have a: "fst ` set info \<subseteq> fst ` set (fst (assign_fields qt n (AList.update ''current_price'' v info) qt_table))" for v
  proof -
    have "fst ` set info \<subseteq> fst ` set (AList.update ''current_price'' v info)"
      unfolding alist_update_names by blast
    also note assign_fields_keys
    finally show ?thesis .
  qed
  show ?thesis
  proof (cases "map_of info ''current_price'' = Some SENTINEL")
    case True
    then show ?thesis
      using a by (cases "py_index qt 3") (simp_all add: tencent_assign_def)
  next
    case False
    then show ?thesis
      using assign_fields_keys [of info qt n qt_table] by (simp add: tencent_assign_def)
  qed
qed


lemma tencent_update_keys: "fst ` set info \<subseteq> fst ` set (tencent_update info r)"
proof (cases r)
  case JsonFail
  then show ?thesis by (simp add: tencent_update_def)
next
  case (JsonResp status body)
  show ?thesis
    using tencent_assign_keys [of info]
    by (simp add: tencent_update_def JsonResp split: option.splits sum.splits)
qed


lemma dict_update_keys: "fst ` set info \<subseteq> fst ` set (dict_update info kvs)"
proof (induction kvs arbitrary: info)
  case Nil
  show ?case by (simp add: dict_update_def)
next
  case (Cons kv kvs)
  have eq: "dict_update info (kv # kvs) = dict_update (AList.update (fst kv) (snd kv) info) kvs"
    by (simp add: dict_update_def)
  have "fst ` set info \<subseteq> fst ` set (AList.update (fst kv) (snd kv) info)"
    unfolding alist_update_names by blast
  also note Cons.IH
  finally show ?case unfolding eq .
qed



lemma initial_keys: "fst ` set (initial_stock_info stamp) = quote_keys"
  by (simp add: initial_stock_info_def quote_keys_def)

lemma quote_primary_keys: "quote_keys \<subseteq> fst ` set (fst (quote_primary lib e w))"
proof (cases "sina_fields (sina_reply e (length (calls (tick w))))")
  case None
  then show ?thesis by (simp add: quote_primary_def Let_def initial_keys)
next
  case (Some flds)
  have "quote_keys \<subseteq> fst ` set (sina_update (initial_stock_info s) flds t)" for s t
    unfolding sina_update_def using dict_update_keys [of "initial_stock_info s"]
    by (simp only: initial_keys)
  with Some show ?thesis by (simp add: quote_primary_def Let_def)
qed

lemma fetch_stock_miss_keys:
  "\<exists>info. fst (fetch_stock_miss lib e w) = PDict info \<and> quote_keys \<subseteq> fst ` set info"
proof -
  obtain info1 w1 where p: "quote_primary lib e w = (info1, w1)" by (cases "quote_primary lib e w")
  have "quote_keys \<subseteq> fst ` set info1" using quote_primary_keys [of lib e w] by (simp add: p)
  also have "\<dots> \<subseteq> fst ` set (tencent_update info1 r)" for r by (rule tencent_update_keys)
  finally show ?thesis
    by (simp add: fetch_stock_miss_def p quote_secondary_def Let_def)
qed

lemma initial_price_fields:
  "map_of (initial_stock_info s) ''current_price'' = Some SENTINEL"
  "k \<in> {''change'', ''change_percent'', ''open'', ''high'', ''low'', ''prev_close'', ''volume'', ''turnover''}
     \<Longrightarrow> map_of (initial_stock_info s) k = Some SENTINEL"
  by (auto simp: initial_stock_info_def)

text \<open>
  Claim C6, amended. In every execution of \<open>fetch_stock_data\<close> that misses the cache,
  in which the primary feed yields no fields and the secondary feed answers with a \<open>qt\<close>
  list of more than 45 elements: \<open>current_price\<close> is taken from the secondary feed
  (\<open>qt[3]\<close>), the other price fields (change, change percent, open, high, low, previous
  close, volume, turnover) stay at \<open>"--"\<close>, market cap and P/E are \<open>qt[45]\<close> and
  \<open>qt[39]\<close>; the call returns a record with every initial key bound, after one request
  to each feed, and stores it in the cache.
\<close>

theorem quote_partial_failure:
  assumes miss: "\<not> pv_truthy (get_cache (cache w) (read_clock e w) ''stock_data'')"
    and primary: "sina_fields (sina_reply e (length (calls w))) = None"
    and secondary: "qt_reply e (Suc (length (calls w))) = JsonResp 200 (Some data)"
    and qt: "qt_lookup data = Inr (Some (JArr qt))" "45 < length qt"
  shows "quote_field ''current_price'' (fst (fetch_stock_data lib e w)) = Some (qt ! 3)
    \<and> (\<forall>k \<in> {''change'', ''change_percent'', ''open'', ''high'', ''low'', ''prev_close'',
           ''volume'', ''turnover''}. quote_field k (fst (fetch_stock_data lib e w)) = Some SENTINEL)
    \<and> quote_field ''market_cap'' (fst (fetch_stock_data lib e w)) = Some (qt ! 45)
    \<and> quote_field ''pe_ratio'' (fst (fetch_stock_data lib e w)) = Some (qt ! 39)
    \<and> (\<forall>k \<in> quote_keys. quote_field k (fst (fetch_stock_data lib e w)) \<noteq> None)
    \<and> calls (snd (fetch_stock_data lib e w)) = calls w @ [ReqSina, ReqQt]
    \<and> (\<exists>t. cache (snd (fetch_stock_data lib e w)) ''stock_data''
          = Some (t, fst (fetch_stock_data lib e w)))"
proof -
  obtain cached w1 where L: "cache_lookup e ''stock_data'' w = (cached, w1)"
    by (cases "cache_lookup e ''stock_data'' w")
  have cached: "cached = get_cache (cache w) (read_clock e w) ''stock_data''"
    using cache_lookup_fst [of e "''stock_data''" w] by (simp add: L)
  have w1: "calls w1 = calls w"
    using cache_lookup_snd(1) [of e "''stock_data''" w] by (simp add: L)
  let ?ini = "initial_stock_info (fmt_datetime lib (read_clock e w1))"
  let ?fin = "tencent_assign ?ini (JArr qt) (length qt)"
  have prim: "quote_primary lib e w1 = (?ini, issue ReqSina (tick w1))"
    using primary by (simp add: quote_primary_def Let_def tick_def w1)
  have nonempty: "qt \<noteq> []" using qt(2) by auto
  have upd: "tencent_update ?ini (JsonResp 200 (Some data)) = ?fin"
    using qt nonempty by (simp add: tencent_update_def)
  have sec: "quote_secondary e ?ini (issue ReqSina (tick w1))
      = (?fin, issue ReqQt (tick (issue ReqSina (tick w1))))"
    using secondary upd by (simp add: quote_secondary_def Let_def tick_def issue_def w1)
  let ?w2 = "issue ReqQt (tick (issue ReqSina (tick w1)))"
  have full: "fetch_stock_data lib e w
      = (PDict ?fin, tick (store (read_clock e ?w2) ''stock_data'' (PDict ?fin) ?w2))"
    using miss by (simp add: fetch_stock_data_def L cached fetch_stock_miss_def prim sec)
  have res: "fst (fetch_stock_data lib e w) = PDict ?fin"
    by (simp add: full)
  have m: "map_of ?fin =
     (map_of ?ini)(''current_price'' \<mapsto> qt ! 3, ''market_cap'' \<mapsto> qt_val qt 45, ''pe_ratio'' \<mapsto> qt_val qt 39,
        ''52w_high'' \<mapsto> qt_val qt 48, ''52w_low'' \<mapsto> qt_val qt 49,
        ''dividend_yield'' \<mapsto> qt_val qt 47, ''pb_ratio'' \<mapsto> qt_val qt 51,
        ''turnover_rate'' \<mapsto> qt_val qt 50, ''amplitude'' \<mapsto> qt_val qt 43,
        ''total_shares'' \<mapsto> qt_val qt 69, ''float_shares'' \<mapsto> qt_val qt 70,
        ''nav_per_share'' \<mapsto> qt_val qt 72)"
    by (rule tencent_assign_list [OF initial_price_fields(1) qt(2)])
  have a: "quote_field ''current_price'' (fst (fetch_stock_data lib e w)) = Some (qt ! 3)"
    by (simp add: res quote_field_def m)
  have b: "\<forall>k \<in> {''change'', ''change_percent'', ''open'', ''high'', ''low'', ''prev_close'',
           ''volume'', ''turnover''}. quote_field k (fst (fetch_stock_data lib e w)) = Some SENTINEL"
    by (simp add: res quote_field_def m initial_price_fields(2))
  have c: "quote_field ''market_cap'' (fst (fetch_stock_data lib e w)) = Some (qt ! 45)"
    using qt(2) by (simp add: res quote_field_def m qt_val_def)
  have d: "quote_field ''pe_ratio'' (fst (fetch_stock_data lib e w)) = Some (qt ! 39)"
    using qt(2) by (simp add: res quote_field_def m qt_val_def)
  have "quote_keys \<subseteq> fst ` set ?fin"
    using tencent_assign_keys [of ?ini "JArr qt" "length qt"] by (simp only: initial_keys)
  then have e: "\<forall>k \<in> quote_keys. quote_field k (fst (fetch_stock_data lib e w)) \<noteq> None"
    by (auto simp: res quote_field_def map_of_eq_None_iff)
  have f: "calls (snd (fetch_stock_data lib e w)) = calls w @ [ReqSina, ReqQt]"
    by (simp add: full tick_def issue_def store_def w1)
  have g: "\<exists>t. cache (snd (fetch_stock_data lib e w)) ''stock_data''
          = Some (t, fst (fetch_stock_data lib e w))"
    by (simp add: full tick_def issue_def store_def set_cache_def)
  from a b c d e f g show ?thesis by blast
qed


theorem quote_partial_failure_witness:
  "quote_field ''current_price'' (fst (fetch_stock_data plain_lib half_env empty_world)) = Some (JStr ''388.20'')
   \<and> quote_field ''open'' (fst (fetch_stock_data plain_lib half_env empty_world)) = Some (JStr ''--'')
   \<and> quote_field ''market_cap'' (fst (fetch_stock_data plain_lib half_env empty_world)) = Some (JStr ''35321.8'')
   \<and> quote_field ''pe_ratio'' (fst (fetch_stock_data plain_lib half_env empty_world)) = Some (JStr ''21.53'')"
proof -
  have miss: "\<not> pv_truthy (get_cache (cache empty_world) (read_clock half_env empty_world) ''stock_data'')"
    by (simp add: empty_world_def get_cache_def)
  have primary: "sina_fields (sina_reply half_env (length (calls empty_world))) = None"
    by (simp add: half_env_def sina_fields_def)
  have secondary: "qt_reply half_env (Suc (length (calls empty_world))) = JsonResp 200 (Some qt_payload)"
    by (simp add: half_env_def)
  have qt: "qt_lookup qt_payload = Inr (Some (JArr qt_sample))"
    by (simp add: qt_lookup_def qt_payload_def ebind_def)
  have len: "45 < length qt_sample"
    by (simp add: qt_sample_def)
  show ?thesis
    using quote_partial_failure [OF miss primary secondary qt len, of plain_lib]
    by (simp add: qt_sample_def SENTINEL_def)
qed

text \<open>
  Claim C6 as stated fails: with the primary feed down and the secondary feed up,
  \<open>current_price\<close> is not the placeholder but the secondary feed's \<open>qt[3]\<close>.
\<close>

theorem quote_price_counterexample:
  "sina_fields (sina_reply half_env 0) = None
   \<and> quote_field ''current_price'' (fst (fetch_stock_data plain_lib half_env empty_world))
       = Some (JStr ''388.20'')"
  by (simp add: half_env_def sina_fields_def fetch_stock_data_def fetch_stock_miss_def
      quote_primary_def quote_secondary_def empty_world_def cache_lookup_def Let_def tick_def
      issue_def store_def read_clock_def tencent_update_def qt_lookup_def qt_payload_def ebind_def
      qt_sample_def tencent_assign_def initial_stock_info_def SENTINEL_def qt_table_def
      qt_item_def quote_field_def plain_lib_def)

section \<open>Cache misses of the K-line and news fetches\<close>

lemma fetch_kline_data_miss:
  "\<not> pv_truthy (get_cache (cache w) (read_clock e w) (kline_key p c)) \<Longrightarrow>
   fetch_kline_data e p c w =
     fetch_kline_miss e (kline_key p c) (norm_period p) (norm_count c)
       (snd (cache_lookup e (kline_key p c) w))"
  using cache_lookup_fst [of e "kline_key p c" w]
  by (simp add: fetch_kline_data_def Let_def split_beta)

lemma fetch_kline_miss_result:
  "fst (fetch_kline_miss e key p c w) = PKlines (kline_reply e (length (calls w)) p c)"
  "calls (snd (fetch_kline_miss e key p c w)) = calls w @ [ReqKline p c]"
  "cache (snd (fetch_kline_miss e key p c w))
     = (cache w)(key \<mapsto> (read_clock e (issue (ReqKline p c) (tick w)),
          PKlines (kline_reply e (length (calls w)) p c)))"
  by (simp_all add: fetch_kline_miss_def Let_def tick_def issue_def store_def set_cache_def)

lemma fetch_news_miss_eq:
  "\<not> pv_truthy (get_cache (cache w) (read_clock e w) ''news_data'') \<Longrightarrow>
   fetch_news e w = fetch_news_miss e (snd (cache_lookup e ''news_data'' w))"
  using cache_lookup_fst [of e "''news_data''" w]
  by (simp add: fetch_news_def split_beta)

lemma fetch_news_miss_result:
  "fst (fetch_news_miss e w) = PNews (rank_news (news_reply e (length (calls w))))"
  "calls (snd (fetch_news_miss e w)) = calls w @ [ReqNews]"
  by (simp_all add: fetch_news_miss_def Let_def tick_def issue_def store_def)

lemma get_cache_removed: "get_cache (c(key := None)) t key = PNone"
  by (simp add: get_cache_def)

section \<open>Cached empty results\<close>

text \<open>
  Claim C10. When the cache holds an empty K-line list under the key of a
  \<open>fetch_kline_data\<close> call, or an empty news list under \<open>news_data\<close>, whatever the age
  of the entry, the call issues the upstream request again and returns what the upstream
  returns, not the cached value: the same result and the same requests as on a store
  without that entry.
\<close>

theorem cached_empty_is_refetched:
  "(cache w (kline_key p c) = Some (ts, PKlines []) \<longrightarrow>
      fst (fetch_kline_data e p c w)
        = PKlines (kline_reply e (length (calls w)) (norm_period p) (norm_count c))
      \<and> calls (snd (fetch_kline_data e p c w)) = calls w @ [ReqKline (norm_period p) (norm_count c)]
      \<and> fst (fetch_kline_data e p c w)
        = fst (fetch_kline_data e p c (w\<lparr>cache := (cache w)(kline_key p c := None)\<rparr>))
      \<and> calls (snd (fetch_kline_data e p c w))
        = calls (snd (fetch_kline_data e p c (w\<lparr>cache := (cache w)(kline_key p c := None)\<rparr>))))
   \<and> (cache w ''news_data'' = Some (ts, PNews []) \<longrightarrow>
      fst (fetch_news e w) = PNews (rank_news (news_reply e (length (calls w))))
      \<and> calls (snd (fetch_news e w)) = calls w @ [ReqNews]
      \<and> fst (fetch_news e w) = fst (fetch_news e (w\<lparr>cache := (cache w)(''news_data'' := None)\<rparr>))
      \<and> calls (snd (fetch_news e w))
        = calls (snd (fetch_news e (w\<lparr>cache := (cache w)(''news_data'' := None)\<rparr>))))"
proof (intro conjI impI)
  assume h: "cache w (kline_key p c) = Some (ts, PKlines [])"
  let ?w0 = "w\<lparr>cache := (cache w)(kline_key p c := None)\<rparr>"
  have m: "\<not> pv_truthy (get_cache (cache w) (read_clock e w) (kline_key p c))"
    using h by (simp add: get_cache_def)
  have m0: "\<not> pv_truthy (get_cache (cache ?w0) (read_clock e ?w0) (kline_key p c))"
    by (simp add: get_cache_removed)
  note r = fetch_kline_data_miss [OF m] and r0 = fetch_kline_data_miss [OF m0]
  show a: "fst (fetch_kline_data e p c w)
      = PKlines (kline_reply e (length (calls w)) (norm_period p) (norm_count c))"
    by (simp add: r fetch_kline_miss_result cache_lookup_snd)
  show b: "calls (snd (fetch_kline_data e p c w)) = calls w @ [ReqKline (norm_period p) (norm_count c)]"
    by (simp add: r fetch_kline_miss_result cache_lookup_snd)
  show "fst (fetch_kline_data e p c w) = fst (fetch_kline_data e p c ?w0)"
    unfolding a by (simp add: r0 fetch_kline_miss_result cache_lookup_snd)
  show "calls (snd (fetch_kline_data e p c w)) = calls (snd (fetch_kline_data e p c ?w0))"
    unfolding b by (simp add: r0 fetch_kline_miss_result cache_lookup_snd)
next
  assume h: "cache w ''news_data'' = Some (ts, PNews [])"
  let ?w0 = "w\<lparr>cache := (cache w)(''news_data'' := None)\<rparr>"
  have m: "\<not> pv_truthy (get_cache (cache w) (read_clock e w) ''news_data'')"
    using h by (simp add: get_cache_def)
  have m0: "\<not> pv_truthy (get_cache (cache ?w0) (read_clock e ?w0) ''news_data'')"
    by (simp add: get_cache_removed)
  note r = fetch_news_miss_eq [OF m] and r0 = fetch_news_miss_eq [OF m0]
  show a: "fst (fetch_news e w) = PNews (rank_news (news_reply e (length (calls w))))"
    by (simp add: r fetch_news_miss_result cache_lookup_snd)
  show b: "calls (snd (fetch_news e w)) = calls w @ [ReqNews]"
    by (simp add: r fetch_news_miss_result cache_lookup_snd)
  show "fst (fetch_news e w) = fst (fetch_news e ?w0)"
    unfolding a by (simp add: r0 fetch_news_miss_result cache_lookup_snd)
  show "calls (snd (fetch_news e w)) = calls (snd (fetch_news e ?w0))"
    unfolding b by (simp add: r0 fetch_news_miss_result cache_lookup_snd)
qed

lemma stale_world_eq:
  "stale_world = \<lparr>cache = [''kline_day_60'' \<mapsto> (1, PKlines []), ''news_data'' \<mapsto> (2, PNews [])],
     rating_cache = Map.empty, ticks = 3, calls = [ReqKline ''day'' 60, ReqNews]\<rparr>"
  by (simp add: stale_world_def fetch_news_def fetch_news_miss_def fetch_kline_data_def
      fetch_kline_miss_def quiet_env_def empty_world_def cache_lookup_def set_cache_def Let_def
      tick_def issue_def store_def read_clock_def kline_key_def str_int_def digit_char_def
      norm_period_def norm_count_def rank_news_def)

theorem cached_empty_is_refetched_witness:
  "cache stale_world (kline_key ''day'' 60) = Some (1, PKlines [])
   \<and> cache stale_world ''news_data'' = Some (2, PNews [])
   \<and> calls (snd (fetch_kline_data quiet_env ''day'' 60 stale_world))
       = [ReqKline ''day'' 60, ReqNews, ReqKline ''day'' 60]
   \<and> calls (snd (fetch_news quiet_env stale_world)) = [ReqKline ''day'' 60, ReqNews, ReqNews]"
proof -
  have k: "cache stale_world (kline_key ''day'' 60) = Some (1, PKlines [])"
    by (simp add: stale_world_eq kline_key_def str_int_def digit_char_def)
  have n: "cache stale_world ''news_data'' = Some (2, PNews [])"
    by (simp add: stale_world_eq)
  have c: "calls stale_world = [ReqKline ''day'' 60, ReqNews]"
    by (simp add: stale_world_eq)
  have np: "norm_period ''day'' = ''day''" "norm_count 60 = 60"
    by (simp_all add: norm_period_def norm_count_def)
  note K = cached_empty_is_refetched [of stale_world "''day''" 60 1 quiet_env,
      THEN conjunct1, rule_format, OF k, THEN conjunct2, THEN conjunct1]
  note N = cached_empty_is_refetched [of stale_world "''day''" 60 2 quiet_env,
      THEN conjunct2, rule_format, OF n, THEN conjunct2, THEN conjunct1]
  show ?thesis
    using K N k n by (simp add: c np)
qed

section \<open>Properties of the K-line fetch\<close>

lemma warm_world_eq:
  "warm_world = \<lparr>cache = [''kline_day_60'' \<mapsto> (1, PKlines [mk_kline ''0''])],
     rating_cache = Map.empty, ticks = 2, calls = [ReqKline ''day'' 60]\<rparr>"
  by (simp add: warm_world_def fetch_kline_data_def
      fetch_kline_miss_def half_env_def empty_world_def cache_lookup_def set_cache_def Let_def
      tick_def issue_def store_def read_clock_def kline_key_def str_int_def digit_char_def
      norm_period_def norm_count_def)

lemma digit_char_inj: "a < 10 \<Longrightarrow> b < 10 \<Longrightarrow> digit_char a = digit_char b \<Longrightarrow> a = b"
proof -
  assume a: "a < 10" and b: "b < 10" and e: "digit_char a = digit_char b"
  from a have a': "a \<in> {0, 1, 2, 3, 4, 5, 6, 7, 8, 9}" by auto
  from b have b': "b \<in> {0, 1, 2, 3, 4, 5, 6, 7, 8, 9}" by auto
  from a' b' e show "a = b"
    by (auto simp: digit_char_def)
qed

lemma digit_char_set: "d < 10 \<Longrightarrow> digit_char d \<in> set ''0123456789''"
  unfolding digit_char_def by (rule nth_mem) simp

lemma str_nat_digits: "set (str_nat n) \<subseteq> set ''0123456789''"
proof (induction n rule: str_nat.induct)
  case (1 n)
  show ?case
  proof (cases "n < 10")
    case True
    then show ?thesis using digit_char_set [of n] by (subst str_nat.simps) simp
  next
    case False
    have "n mod 10 < 10" by simp
    with False 1 digit_char_set [of "n mod 10"] show ?thesis
      by (subst str_nat.simps) simp
  qed
qed

lemma str_nat_nonempty: "str_nat n \<noteq> []"
  by (subst str_nat.simps) simp

lemma str_nat_inj: "str_nat m = str_nat n \<Longrightarrow> m = n"
proof (induction m arbitrary: n rule: str_nat.induct)
  case (1 m)
  have sm: "str_nat m = (if m < 10 then [digit_char m] else str_nat (m div 10) @ [digit_char (m mod 10)])"
    by (rule str_nat.simps)
  have sn: "str_nat n = (if n < 10 then [digit_char n] else str_nat (n div 10) @ [digit_char (n mod 10)])"
    by (rule str_nat.simps)
  show ?case
  proof (cases "m < 10")
    case True
    show ?thesis
    proof (cases "n < 10")
      case n: True
      from "1.prems" True n sm sn have "digit_char m = digit_char n" by simp
      with True n show ?thesis by (rule digit_char_inj)
    next
      case n: False
      from "1.prems" True n sm sn have "str_nat (n div 10) = []" by simp
      with str_nat_nonempty show ?thesis by blast
    qed
  next
    case False
    show ?thesis
    proof (cases "n < 10")
      case n: True
      from "1.prems" False n sm sn have "str_nat (m div 10) = []" by simp
      with str_nat_nonempty show ?thesis by blast
    next
      case n: False
      from "1.prems" False n sm sn
      have e: "str_nat (m div 10) = str_nat (n div 10)" "digit_char (m mod 10) = digit_char (n mod 10)"
        by simp_all
      from "1.IH" [OF False e(1)] have d: "m div 10 = n div 10" .
      have "m mod 10 = n mod 10"
        by (rule digit_char_inj [OF _ _ e(2)]) simp_all
      with d show ?thesis
        by (metis div_mult_mod_eq)
    qed
  qed
qed

lemma str_nat_no_minus: "hd (str_nat n) \<noteq> CHR ''-''"
proof -
  have "hd (str_nat n) \<in> set (str_nat n)"
    using str_nat_nonempty by (rule hd_in_set)
  with str_nat_digits [of n] have "hd (str_nat n) \<in> set ''0123456789''" by blast
  then show ?thesis by (auto simp del: str_nat.simps)
qed

lemma str_int_inj: "str_int i = str_int j \<Longrightarrow> i = j"
proof -
  assume e: "str_int i = str_int j"
  consider "i < 0" "j < 0" | "i < 0" "\<not> j < 0" | "\<not> i < 0" "j < 0" | "\<not> i < 0" "\<not> j < 0"
    by blast
  then show "i = j"
  proof cases
    case 1
    with e have "str_nat (nat (- i)) = str_nat (nat (- j))" by (simp add: str_int_def del: str_nat.simps)
    then have "nat (- i) = nat (- j)" by (rule str_nat_inj)
    with 1 show ?thesis by simp
  next
    case 2
    with e [symmetric] have "hd (str_nat (nat j)) = CHR ''-''" by (simp add: str_int_def del: str_nat.simps)
    with str_nat_no_minus show ?thesis by blast
  next
    case 3
    with e have "hd (str_nat (nat i)) = CHR ''-''" by (simp add: str_int_def del: str_nat.simps)
    with str_nat_no_minus show ?thesis by blast
  next
    case 4
    with e have "str_nat (nat i) = str_nat (nat j)" by (simp add: str_int_def del: str_nat.simps)
    then have "nat i = nat j" by (rule str_nat_inj)
    with 4 show ?thesis by simp
  qed
qed

lemma str_int_no_sep: "CHR ''_'' \<notin> set (str_int i)"
  using str_nat_digits [of "nat i"] str_nat_digits [of "nat (- i)"]
  by (auto simp: str_int_def simp del: str_nat.simps)

lemma sep_suffix_inj:
  "x \<notin> set xs \<Longrightarrow> x \<notin> set ys \<Longrightarrow> xs @ x # p = ys @ x # q \<Longrightarrow> xs = ys \<and> p = q"
  by (induction xs arbitrary: ys) (auto simp: Cons_eq_append_conv append_eq_Cons_conv)

lemma sep_last_inj:
  assumes "x \<notin> set xs" "x \<notin> set ys" "p @ x # xs = q @ x # ys"
  shows "p = q \<and> xs = ys"
proof -
  from assms(3) have "rev (p @ x # xs) = rev (q @ x # ys)" by simp
  then have "rev xs @ x # rev p = rev ys @ x # rev q" by simp
  moreover have "x \<notin> set (rev xs)" "x \<notin> set (rev ys)" using assms by simp_all
  ultimately have "rev xs = rev ys \<and> rev p = rev q"
    by (rule sep_suffix_inj [rotated 2])
  then show ?thesis by simp
qed

lemma kline_key_inj: "kline_key p c = kline_key q d \<Longrightarrow> p = q \<and> c = d"
proof -
  assume "kline_key p c = kline_key q d"
  then have "p @ CHR ''_'' # str_int c = q @ CHR ''_'' # str_int d"
    by (simp add: kline_key_def)
  from sep_last_inj [OF str_int_no_sep str_int_no_sep this]
  show ?thesis by (auto dest: str_int_inj)
qed

lemma fetch_kline_cache_other:
  "key \<noteq> kline_key p c \<Longrightarrow> cache (snd (fetch_kline_data e p c w)) key = cache w key"
  by (simp add: fetch_kline_data_def fetch_kline_miss_def cache_lookup_def Let_def tick_def
      issue_def store_def set_cache_def split: prod.splits)

lemma fetch_kline_ignores_other:
  "key \<noteq> kline_key p c \<Longrightarrow>
   fst (fetch_kline_data e p c (w\<lparr>cache := (cache w)(key := x)\<rparr>)) = fst (fetch_kline_data e p c w)
   \<and> calls (snd (fetch_kline_data e p c (w\<lparr>cache := (cache w)(key := x)\<rparr>)))
       = calls (snd (fetch_kline_data e p c w))"
  by (simp add: fetch_kline_data_def fetch_kline_miss_def cache_lookup_def get_cache_def Let_def
      tick_def issue_def store_def set_cache_def read_clock_def split: prod.splits)

text \<open>
  Claim C5, amended. \<open>fetch_kline_data\<close> coerces a period outside day, week, month to
  day and clamps the count to 10..1500 for the upstream request. The cache key is built
  from the parameters as passed, before they are normalised: on a miss the result is
  stored under \<open>kline_PERIOD_COUNT\<close> of the raw values, and a hit is looked up
  there. So on a miss a call with an unrecognised period issues the request of a day call
  and returns its data, and a count of 5 requests 10 points. The key determines the
  parameter pair, so each raw pair has a cache entry of its own: a call whose period or
  count is changed by the normalisation has a key other than the key of the normalised
  pair, leaves the entry of the normalised pair as it was, and returns the same data and
  issues the same requests whatever that entry holds.
\<close>

theorem kline_request_normalised:
  "norm_period p \<in> {''day'', ''week'', ''month''}
   \<and> (p \<in> {''day'', ''week'', ''month''} \<longrightarrow> norm_period p = p)
   \<and> (p \<notin> {''day'', ''week'', ''month''} \<longrightarrow> norm_period p = ''day'')
   \<and> norm_count c = (if c < 10 then 10 else if 1500 < c then 1500 else c)
   \<and> (\<not> pv_truthy (get_cache (cache w) (read_clock e w) (kline_key p c)) \<longrightarrow>
        fst (fetch_kline_data e p c w)
          = PKlines (kline_reply e (length (calls w)) (norm_period p) (norm_count c))
        \<and> calls (snd (fetch_kline_data e p c w))
          = calls w @ [ReqKline (norm_period p) (norm_count c)]
        \<and> (\<exists>t. cache (snd (fetch_kline_data e p c w))
              = (cache w)(''kline_'' @ p @ ''_'' @ str_int c \<mapsto> (t, fst (fetch_kline_data e p c w)))))
   \<and> (pv_truthy (get_cache (cache w) (read_clock e w) (kline_key p c)) \<longrightarrow>
        fetch_kline_data e p c w = (get_cache (cache w) (read_clock e w) (kline_key p c), tick w))
   \<and> ((kline_key q d = kline_key p c) = (q = p \<and> d = c))
   \<and> (p \<noteq> norm_period p \<or> c \<noteq> norm_count c \<longrightarrow>
        kline_key p c \<noteq> kline_key (norm_period p) (norm_count c)
        \<and> cache (snd (fetch_kline_data e p c w)) (kline_key (norm_period p) (norm_count c))
            = cache w (kline_key (norm_period p) (norm_count c))
        \<and> fst (fetch_kline_data e p c
               (w\<lparr>cache := (cache w)(kline_key (norm_period p) (norm_count c) := x)\<rparr>))
            = fst (fetch_kline_data e p c w)
        \<and> calls (snd (fetch_kline_data e p c
               (w\<lparr>cache := (cache w)(kline_key (norm_period p) (norm_count c) := x)\<rparr>)))
            = calls (snd (fetch_kline_data e p c w)))"
proof -
  have a: "norm_period p \<in> {''day'', ''week'', ''month''}"
    and b: "p \<in> {''day'', ''week'', ''month''} \<longrightarrow> norm_period p = p"
    and b': "p \<notin> {''day'', ''week'', ''month''} \<longrightarrow> norm_period p = ''day''"
    by (auto simp: norm_period_def)
  have c: "norm_count c = (if c < 10 then 10 else if 1500 < c then 1500 else c)"
    by (simp add: norm_count_def)
  have d: "\<not> pv_truthy (get_cache (cache w) (read_clock e w) (kline_key p c)) \<longrightarrow>
        fst (fetch_kline_data e p c w)
          = PKlines (kline_reply e (length (calls w)) (norm_period p) (norm_count c))
        \<and> calls (snd (fetch_kline_data e p c w))
          = calls w @ [ReqKline (norm_period p) (norm_count c)]
        \<and> (\<exists>t. cache (snd (fetch_kline_data e p c w))
              = (cache w)(''kline_'' @ p @ ''_'' @ str_int c \<mapsto> (t, fst (fetch_kline_data e p c w))))"
  proof
    assume m: "\<not> pv_truthy (get_cache (cache w) (read_clock e w) (kline_key p c))"
    let ?w1 = "snd (cache_lookup e (kline_key p c) w)"
    note r = fetch_kline_data_miss [OF m]
    have k: "kline_key p c = ''kline_'' @ p @ ''_'' @ str_int c"
      by (simp add: kline_key_def)
    have "cache (snd (fetch_kline_data e p c w))
        = (cache w)(kline_key p c \<mapsto>
            (read_clock e (issue (ReqKline (norm_period p) (norm_count c)) (tick ?w1)),
             fst (fetch_kline_data e p c w)))"
      by (simp add: r fetch_kline_miss_result cache_lookup_snd)
    then have "\<exists>t. cache (snd (fetch_kline_data e p c w))
              = (cache w)(kline_key p c \<mapsto> (t, fst (fetch_kline_data e p c w)))"
      by (rule exI)
    then show "fst (fetch_kline_data e p c w)
          = PKlines (kline_reply e (length (calls w)) (norm_period p) (norm_count c))
        \<and> calls (snd (fetch_kline_data e p c w))
          = calls w @ [ReqKline (norm_period p) (norm_count c)]
        \<and> (\<exists>t. cache (snd (fetch_kline_data e p c w))
              = (cache w)(''kline_'' @ p @ ''_'' @ str_int c \<mapsto> (t, fst (fetch_kline_data e p c w))))"
      unfolding k by (simp add: r fetch_kline_miss_result(1,2) cache_lookup_snd)
  qed
  have f: "pv_truthy (get_cache (cache w) (read_clock e w) (kline_key p c)) \<longrightarrow>
        fetch_kline_data e p c w = (get_cache (cache w) (read_clock e w) (kline_key p c), tick w)"
    by (simp add: fetch_kline_data_def cache_lookup_hit)
  have g: "(kline_key q d = kline_key p c) = (q = p \<and> d = c)"
    using kline_key_inj [of q d p c] by auto
  have h: "p \<noteq> norm_period p \<or> c \<noteq> norm_count c \<longrightarrow>
        kline_key p c \<noteq> kline_key (norm_period p) (norm_count c)
        \<and> cache (snd (fetch_kline_data e p c w)) (kline_key (norm_period p) (norm_count c))
            = cache w (kline_key (norm_period p) (norm_count c))
        \<and> fst (fetch_kline_data e p c
               (w\<lparr>cache := (cache w)(kline_key (norm_period p) (norm_count c) := x)\<rparr>))
            = fst (fetch_kline_data e p c w)
        \<and> calls (snd (fetch_kline_data e p c
               (w\<lparr>cache := (cache w)(kline_key (norm_period p) (norm_count c) := x)\<rparr>)))
            = calls (snd (fetch_kline_data e p c w))"
  proof
    assume "p \<noteq> norm_period p \<or> c \<noteq> norm_count c"
    with kline_key_inj [of "norm_period p" "norm_count c" p c]
    have ne: "kline_key (norm_period p) (norm_count c) \<noteq> kline_key p c"
      by auto
    from ne fetch_kline_cache_other [OF ne] fetch_kline_ignores_other [OF ne]
    show "kline_key p c \<noteq> kline_key (norm_period p) (norm_count c)
        \<and> cache (snd (fetch_kline_data e p c w)) (kline_key (norm_period p) (norm_count c))
            = cache w (kline_key (norm_period p) (norm_count c))
        \<and> fst (fetch_kline_data e p c
               (w\<lparr>cache := (cache w)(kline_key (norm_period p) (norm_count c) := x)\<rparr>))
            = fst (fetch_kline_data e p c w)
        \<and> calls (snd (fetch_kline_data e p c
               (w\<lparr>cache := (cache w)(kline_key (norm_period p) (norm_count c) := x)\<rparr>)))
            = calls (snd (fetch_kline_data e p c w))"
      by metis
  qed
  from a b b' c d f g h show ?thesis by (intro conjI)
qed

theorem kline_request_normalised_witness:
  "fst (fetch_kline_data half_env ''foo'' 5 empty_world) = PKlines [mk_kline ''0'']
   \<and> calls (snd (fetch_kline_data half_env ''foo'' 5 empty_world)) = [ReqKline ''day'' 10]
   \<and> (\<exists>t. cache (snd (fetch_kline_data half_env ''foo'' 5 empty_world))
       = [''kline_foo_5'' \<mapsto> (t, PKlines [mk_kline ''0''])])
   \<and> kline_key ''foo'' 5 \<noteq> kline_key ''day'' 10
   \<and> cache (snd (fetch_kline_data half_env ''foo'' 5 empty_world)) (kline_key ''day'' 10) = None
   \<and> fst (fetch_kline_data half_env ''foo'' 5
        (empty_world\<lparr>cache := (cache empty_world)(kline_key ''day'' 10 := Some (0, PKlines [mk_kline ''9'']))\<rparr>))
      = PKlines [mk_kline ''0'']"
proof -
  have m: "\<not> pv_truthy (get_cache (cache empty_world) (read_clock half_env empty_world)
      (kline_key ''foo'' 5))"
    by (simp add: empty_world_def get_cache_def)
  note T = kline_request_normalised [of "''foo''" 5 empty_world half_env,
      THEN conjunct2, THEN conjunct2, THEN conjunct2, THEN conjunct2, THEN conjunct1,
      rule_format, OF m]
  have n: "norm_period ''foo'' = ''day''" "norm_count 5 = 10"
    by (simp_all add: norm_period_def norm_count_def)
  have r: "kline_reply half_env 0 ''day'' 10 = [mk_kline ''0'']"
    by (simp add: half_env_def digit_char_def)
  have c: "calls empty_world = []" "cache empty_world = Map.empty"
    by (simp_all add: empty_world_def)
  have k: "''kline_'' @ ''foo'' @ ''_'' @ str_int 5 = ''kline_foo_5''"
    by (simp add: str_int_def digit_char_def)
  from T have first: "fst (fetch_kline_data half_env ''foo'' 5 empty_world) = PKlines [mk_kline ''0'']
   \<and> calls (snd (fetch_kline_data half_env ''foo'' 5 empty_world)) = [ReqKline ''day'' 10]
   \<and> (\<exists>t. cache (snd (fetch_kline_data half_env ''foo'' 5 empty_world))
       = [''kline_foo_5'' \<mapsto> (t, PKlines [mk_kline ''0''])])"
    unfolding n c k by (auto simp: r)
  have ch: "''foo'' \<noteq> norm_period ''foo'' \<or> (5::int) \<noteq> norm_count 5"
    by (simp add: n)
  note U = kline_request_normalised [of "''foo''" 5 empty_world half_env _ _
      "Some (0, PKlines [mk_kline ''9''])",
      THEN conjunct2, THEN conjunct2, THEN conjunct2, THEN conjunct2, THEN conjunct2,
      THEN conjunct2, THEN conjunct2, rule_format, OF ch]
  from U have second: "kline_key ''foo'' 5 \<noteq> kline_key ''day'' 10
   \<and> cache (snd (fetch_kline_data half_env ''foo'' 5 empty_world)) (kline_key ''day'' 10) = None
   \<and> fst (fetch_kline_data half_env ''foo'' 5
        (empty_world\<lparr>cache := (cache empty_world)(kline_key ''day'' 10 := Some (0, PKlines [mk_kline ''9'']))\<rparr>))
      = PKlines [mk_kline ''0'']"
    unfolding n using first by (simp add: c)
  from first second show ?thesis by (intro conjI) blast+
qed

text \<open>
  Claim C5 as stated fails: with a fresh entry for \<open>("day", 60)\<close> in the cache, the day
  call is answered from the cache without a request, while the call with period \<open>foo\<close>
  misses, issues a request and returns other data; the keys are \<open>kline_foo_60\<close> and
  \<open>kline_day_5\<close>, the raw parameters.
\<close>

theorem kline_cache_key_counterexample:
  "fetch_kline_data half_env ''day'' 60 warm_world = (PKlines [mk_kline ''0''], tick warm_world)
   \<and> fst (fetch_kline_data half_env ''foo'' 60 warm_world) = PKlines [mk_kline ''1'']
   \<and> calls (snd (fetch_kline_data half_env ''foo'' 60 warm_world))
       = [ReqKline ''day'' 60, ReqKline ''day'' 60]
   \<and> kline_key ''foo'' 60 = ''kline_foo_60''
   \<and> kline_key ''day'' 5 = ''kline_day_5''"
  by (simp add: warm_world_eq fetch_kline_data_def fetch_kline_miss_def half_env_def
      cache_lookup_def get_cache_def set_cache_def Let_def tick_def issue_def store_def
      read_clock_def kline_key_def str_int_def digit_char_def norm_period_def norm_count_def
      CACHE_TTL_def)

section \<open>Properties of the rating engine\<close>

lemma fetch_stock_rating_cache: "rating_cache (snd (fetch_stock_data lib e w)) = rating_cache w"
  by (simp add: fetch_stock_data_def fetch_stock_miss_def quote_primary_def quote_secondary_def
      cache_lookup_def Let_def tick_def issue_def store_def split: prod.splits option.splits)

lemma fetch_news_rating_cache: "rating_cache (snd (fetch_news e w)) = rating_cache w"
  by (simp add: fetch_news_def fetch_news_miss_def cache_lookup_def Let_def tick_def issue_def
      store_def)

lemma fetch_kline_rating_cache: "rating_cache (snd (fetch_kline_data e p c w)) = rating_cache w"
  by (simp add: fetch_kline_data_def fetch_kline_miss_def cache_lookup_def Let_def tick_def
      issue_def store_def)

lemma gather_inputs_rating_cache: "rating_cache (gather_inputs lib e w) = rating_cache w"
  by (simp add: gather_inputs_def fetch_stock_rating_cache fetch_news_rating_cache
      fetch_kline_rating_cache)

text \<open>The fetches issue no backend request.\<close>

lemma fetch_stock_backend:
  "filter (\<lambda>r. r = ReqLLM) (calls (snd (fetch_stock_data lib e w))) = filter (\<lambda>r. r = ReqLLM) (calls w)"
  by (simp add: fetch_stock_data_def fetch_stock_miss_def quote_primary_def quote_secondary_def
      cache_lookup_def Let_def tick_def issue_def store_def split: prod.splits option.splits)

lemma fetch_news_backend:
  "filter (\<lambda>r. r = ReqLLM) (calls (snd (fetch_news e w))) = filter (\<lambda>r. r = ReqLLM) (calls w)"
  by (simp add: fetch_news_def fetch_news_miss_def cache_lookup_def Let_def tick_def issue_def
      store_def)

lemma fetch_kline_backend:
  "filter (\<lambda>r. r = ReqLLM) (calls (snd (fetch_kline_data e p c w))) = filter (\<lambda>r. r = ReqLLM) (calls w)"
  by (simp add: fetch_kline_data_def fetch_kline_miss_def cache_lookup_def Let_def tick_def
      issue_def store_def)

lemma gather_inputs_backend:
  "filter (\<lambda>r. r = ReqLLM) (calls (gather_inputs lib e w)) = filter (\<lambda>r. r = ReqLLM) (calls w)"
  by (simp add: gather_inputs_def fetch_stock_backend fetch_news_backend fetch_kline_backend)

lemma rate_today_calls:
  "api_key e \<noteq> [] \<Longrightarrow>
   calls (snd (rate_today lib e today w)) = calls (gather_inputs lib e w) @ [ReqLLM]"
  by (simp add: rate_today_def Let_def issue_def memoize_def split: sum.splits)

lemma rate_today_failure:
  "api_key e \<noteq> [] \<Longrightarrow>
   rating_steps lib today (llm_reply e (length (calls (gather_inputs lib e w)))) = Inl err \<Longrightarrow>
   rate_today lib e today w = (failure_fallback today, issue ReqLLM (gather_inputs lib e w))"
  by (simp add: rate_today_def Let_def)

lemma tick_rating_cache: "rating_cache (tick w) = rating_cache w"
  by (simp add: tick_def)















text \<open>
  Claim C7. A transport error, a status other than 200, a body that is not JSON, an
  empty extracted text and a text that does not parse are failures of the rating steps.
  Whenever the rating steps fail, with a key configured and nothing memoized for today,
  \<open>get_rating\<close> returns the neutral fallback (neutral label, score 50, the
  generation-failure summary), leaves the memo as it was, and has issued the backend
  request; the next call on the same date issues a backend request again.
\<close>

theorem rating_failure_not_memoized:
  "rating_steps lib today JsonFail = Inl TransportError
   \<and> (status \<noteq> 200 \<longrightarrow> rating_steps lib today (JsonResp status body) = Inl (ApiHttpError status))
   \<and> rating_steps lib today (JsonResp 200 None) = Inl JSONDecodeError
   \<and> (message_content b = Inr content \<and> py_strip lib content = Inr [] \<longrightarrow>
        rating_steps lib today (JsonResp 200 (Some b)) = Inl EmptyContent)
   \<and> (message_content b = Inr content \<and> py_strip lib content = Inr text \<and> text \<noteq> []
        \<and> json_loads lib (str_strip lib (strip_fence lib text)) = None \<longrightarrow>
        rating_steps lib today (JsonResp 200 (Some b)) = Inl JSONDecodeError)
   \<and> (rating_cache w (fmt_date lib (read_clock e w)) = None \<and> api_key e \<noteq> []
        \<and> rating_steps lib (fmt_date lib (read_clock e w))
              (llm_reply e (length (calls (gather_inputs lib e (tick w))))) = Inl err \<longrightarrow>
        fst (get_rating lib e w) = failure_fallback (fmt_date lib (read_clock e w))
        \<and> map_of (fst (get_rating lib e w)) ''rating'' = Some (JStr label_neutral)
        \<and> map_of (fst (get_rating lib e w)) ''score'' = Some (JInt 50)
        \<and> map_of (fst (get_rating lib e w)) ''summary'' = Some (JStr failure_summary)
        \<and> rating_cache (snd (get_rating lib e w)) = rating_cache w
        \<and> calls (snd (get_rating lib e w)) = calls (gather_inputs lib e (tick w)) @ [ReqLLM]
        \<and> (fmt_date lib (read_clock e (snd (get_rating lib e w))) = fmt_date lib (read_clock e w) \<longrightarrow>
             calls (snd (get_rating lib e (snd (get_rating lib e w))))
               = calls (gather_inputs lib e (tick (snd (get_rating lib e w)))) @ [ReqLLM]))"
proof -
  have a: "rating_steps lib today JsonFail = Inl TransportError"
    by (simp add: rating_steps_def)
  have b: "status \<noteq> 200 \<longrightarrow> rating_steps lib today (JsonResp status body) = Inl (ApiHttpError status)"
    by (simp add: rating_steps_def)
  have c: "rating_steps lib today (JsonResp 200 None) = Inl JSONDecodeError"
    by (simp add: rating_steps_def)
  have d: "message_content b = Inr content \<and> py_strip lib content = Inr [] \<longrightarrow>
        rating_steps lib today (JsonResp 200 (Some b)) = Inl EmptyContent"
    by (simp add: rating_steps_def ebind_def parse_rating_def)
  have f: "message_content b = Inr content \<and> py_strip lib content = Inr text \<and> text \<noteq> []
        \<and> json_loads lib (str_strip lib (strip_fence lib text)) = None \<longrightarrow>
        rating_steps lib today (JsonResp 200 (Some b)) = Inl JSONDecodeError"
    by (simp add: rating_steps_def ebind_def parse_rating_def)
  let ?today = "fmt_date lib (read_clock e w)"
  have g: "rating_cache w ?today = None \<and> api_key e \<noteq> []
        \<and> rating_steps lib ?today (llm_reply e (length (calls (gather_inputs lib e (tick w))))) = Inl err \<longrightarrow>
        fst (get_rating lib e w) = failure_fallback ?today
        \<and> map_of (fst (get_rating lib e w)) ''rating'' = Some (JStr label_neutral)
        \<and> map_of (fst (get_rating lib e w)) ''score'' = Some (JInt 50)
        \<and> map_of (fst (get_rating lib e w)) ''summary'' = Some (JStr failure_summary)
        \<and> rating_cache (snd (get_rating lib e w)) = rating_cache w
        \<and> calls (snd (get_rating lib e w)) = calls (gather_inputs lib e (tick w)) @ [ReqLLM]
        \<and> (fmt_date lib (read_clock e (snd (get_rating lib e w))) = ?today \<longrightarrow>
             calls (snd (get_rating lib e (snd (get_rating lib e w))))
               = calls (gather_inputs lib e (tick (snd (get_rating lib e w)))) @ [ReqLLM])"
  proof (intro impI, elim conjE)
    assume none: "rating_cache w ?today = None" and key: "api_key e \<noteq> []"
      and fail: "rating_steps lib ?today (llm_reply e (length (calls (gather_inputs lib e (tick w))))) = Inl err"
    let ?w' = "issue ReqLLM (gather_inputs lib e (tick w))"
    have r: "get_rating lib e w = (failure_fallback ?today, ?w')"
      using none rate_today_failure [OF key fail] by (simp add: get_rating_def)
    have memo: "rating_cache ?w' = rating_cache w"
      by (simp add: issue_def gather_inputs_rating_cache tick_rating_cache)
    have retry: "calls (snd (get_rating lib e ?w')) = calls (gather_inputs lib e (tick ?w')) @ [ReqLLM]"
      if same: "fmt_date lib (read_clock e ?w') = ?today"
    proof -
      have "rating_cache ?w' (fmt_date lib (read_clock e ?w')) = None"
        using none by (simp only: memo same)
      then have "get_rating lib e ?w' = rate_today lib e (fmt_date lib (read_clock e ?w')) (tick ?w')"
        by (simp add: get_rating_def)
      then show ?thesis by (simp only: rate_today_calls [OF key])
    qed
    have c1: "fst (get_rating lib e w) = failure_fallback ?today"
      by (simp add: r)
    have c2: "map_of (fst (get_rating lib e w)) ''rating'' = Some (JStr label_neutral)"
      and c3: "map_of (fst (get_rating lib e w)) ''score'' = Some (JInt 50)"
      and c4: "map_of (fst (get_rating lib e w)) ''summary'' = Some (JStr failure_summary)"
      by (simp_all add: c1 failure_fallback_def)
    have c5: "rating_cache (snd (get_rating lib e w)) = rating_cache w"
      by (simp add: r memo)
    have c6: "calls (snd (get_rating lib e w)) = calls (gather_inputs lib e (tick w)) @ [ReqLLM]"
      by (simp add: r issue_def)
    have c7: "fmt_date lib (read_clock e (snd (get_rating lib e w))) = ?today \<longrightarrow>
             calls (snd (get_rating lib e (snd (get_rating lib e w))))
               = calls (gather_inputs lib e (tick (snd (get_rating lib e w)))) @ [ReqLLM]"
      unfolding r snd_conv using retry by (rule impI)
    from c1 c2 c3 c4 c5 c6 c7
    show "fst (get_rating lib e w) = failure_fallback ?today
        \<and> map_of (fst (get_rating lib e w)) ''rating'' = Some (JStr label_neutral)
        \<and> map_of (fst (get_rating lib e w)) ''score'' = Some (JInt 50)
        \<and> map_of (fst (get_rating lib e w)) ''summary'' = Some (JStr failure_summary)
        \<and> rating_cache (snd (get_rating lib e w)) = rating_cache w
        \<and> calls (snd (get_rating lib e w)) = calls (gather_inputs lib e (tick w)) @ [ReqLLM]
        \<and> (fmt_date lib (read_clock e (snd (get_rating lib e w))) = ?today \<longrightarrow>
             calls (snd (get_rating lib e (snd (get_rating lib e w))))
               = calls (gather_inputs lib e (tick (snd (get_rating lib e w)))) @ [ReqLLM])"
      by (intro conjI)
  qed
  from a b c d f g show ?thesis by (intro conjI)
qed

theorem rating_failure_not_memoized_witness:
  "rating_steps plain_lib ''2024-05-06'' (llm_reply quiet_env 4) = Inl TransportError
   \<and> fst (get_rating plain_lib quiet_env empty_world) = failure_fallback ''2024-05-06''
   \<and> rating_cache (snd (get_rating plain_lib quiet_env empty_world)) = Map.empty
   \<and> filter (\<lambda>r. r = ReqLLM) (calls (snd (get_rating plain_lib quiet_env empty_world))) = [ReqLLM]
   \<and> filter (\<lambda>r. r = ReqLLM)
        (calls (snd (get_rating plain_lib quiet_env (snd (get_rating plain_lib quiet_env empty_world)))))
       = [ReqLLM, ReqLLM]"
proof -
  have today: "fmt_date plain_lib t = ''2024-05-06''" for t
    by (simp add: plain_lib_def)
  have st: "rating_steps plain_lib d (llm_reply quiet_env n) = Inl TransportError" for d n
    by (simp add: quiet_env_def rating_steps_def)
  have h: "rating_cache empty_world (fmt_date plain_lib (read_clock quiet_env empty_world)) = None
      \<and> api_key quiet_env \<noteq> []
      \<and> rating_steps plain_lib (fmt_date plain_lib (read_clock quiet_env empty_world))
           (llm_reply quiet_env (length (calls (gather_inputs plain_lib quiet_env (tick empty_world)))))
         = Inl TransportError"
    by (simp add: st) (simp add: empty_world_def quiet_env_def)
  note T = rating_failure_not_memoized [of plain_lib _ _ _ _ _ _ empty_world quiet_env TransportError,
      THEN conjunct2, THEN conjunct2, THEN conjunct2, THEN conjunct2, THEN conjunct2,
      rule_format, OF h]
  let ?w' = "snd (get_rating plain_lib quiet_env empty_world)"
  have c1: "fst (get_rating plain_lib quiet_env empty_world) = failure_fallback ''2024-05-06''"
    using T [THEN conjunct1] by (simp add: today)
  have "rating_cache ?w' = rating_cache empty_world"
    using T by blast
  then have c5: "rating_cache ?w' = Map.empty"
    by (simp add: empty_world_def)
  have "calls ?w' = calls (gather_inputs plain_lib quiet_env (tick empty_world)) @ [ReqLLM]"
    using T by blast
  then have c6: "filter (\<lambda>r. r = ReqLLM) (calls ?w') = [ReqLLM]"
    by (simp add: gather_inputs_backend) (simp add: tick_def empty_world_def)
  have "calls (snd (get_rating plain_lib quiet_env ?w'))
      = calls (gather_inputs plain_lib quiet_env (tick ?w')) @ [ReqLLM]"
    using T by (simp add: today)
  then have c7: "filter (\<lambda>r. r = ReqLLM) (calls (snd (get_rating plain_lib quiet_env ?w')))
      = [ReqLLM, ReqLLM]"
    using c6 by (simp add: gather_inputs_backend) (simp add: tick_def)
  from st [of "''2024-05-06''" 4] c1 c5 c6 c7 show ?thesis by (intro conjI)
qed

section \<open>Properties of the streaming relay\<close>

lemma consume_lines_skip:
  "\<not> startswith ''data: '' line \<Longrightarrow> consume_lines lib tail (line # rest) = consume_lines lib tail rest"
  by simp

lemma consume_lines_done:
  "startswith ''data: '' line \<Longrightarrow> str_strip lib (drop 6 line) = ''[DONE]'' \<Longrightarrow>
   consume_lines lib tail (line # rest) = ([], None)"
  by simp

lemma consume_lines_content:
  "startswith ''data: '' line \<Longrightarrow> str_strip lib (drop 6 line) \<noteq> ''[DONE]'' \<Longrightarrow>
   delta_content lib (drop 6 line) = Inr (Some c) \<Longrightarrow>
   consume_lines lib tail (line # rest) =
     (c # fst (consume_lines lib tail rest), snd (consume_lines lib tail rest))"
  by (simp add: split_beta)

lemma consume_lines_caught:
  "startswith ''data: '' line \<Longrightarrow> str_strip lib (drop 6 line) \<noteq> ''[DONE]'' \<Longrightarrow>
   delta_content lib (drop 6 line) = Inl err \<Longrightarrow> caught_in_loop err \<Longrightarrow>
   consume_lines lib tail (line # rest) = consume_lines lib tail rest"
  by simp

lemma consume_lines_abort:
  "startswith ''data: '' line \<Longrightarrow> str_strip lib (drop 6 line) \<noteq> ''[DONE]'' \<Longrightarrow>
   delta_content lib (drop 6 line) = Inl err \<Longrightarrow> \<not> caught_in_loop err \<Longrightarrow>
   consume_lines lib tail (line # rest) = ([], Some err)"
  by simp

lemma delta_content_null: "delta_content stream_lib chunk_null_delta = Inl TypeError"
  by (simp add: delta_content_def stream_lib_def ebind_def)

lemma delta_content_hi: "delta_content stream_lib chunk_hi = Inr (Some (JStr ''hi''))"
  by (simp add: delta_content_def stream_lib_def ebind_def chunk_hi_def chunk_null_delta_def)

lemma stream_lib_plain:
  "str_strip stream_lib s = s" "exc_str stream_lib err = ''error''"
  by (simp_all add: stream_lib_def plain_lib_def)

lemma chunks_not_done: "chunk_null_delta \<noteq> ''[DONE]''" "chunk_hi \<noteq> ''[DONE]''"
  by (simp_all add: chunk_null_delta_def chunk_hi_def)

text \<open>
  Claim C9 at a stream whose first data line carries \<open>{"choices":[{"delta":null}]}\<close>:
  the membership test on the null delta raises \<open>TypeError\<close>, which the loop's handler
  does not catch; the loop is left, \<open>_stream_llm\<close> yields its diagnostic fragment and
  ends, and the content \<open>hi\<close> of the next line, which the same stream without the first
  line delivers, is never yielded.
\<close>

theorem stream_aborts_on_null_delta:
  "consume_lines stream_lib None [''data: '' @ chunk_null_delta, ''data: '' @ chunk_hi, ''data: [DONE]'']
     = ([], Some TypeError)
   \<and> stream_llm_ok stream_lib None [''data: '' @ chunk_null_delta, ''data: '' @ chunk_hi, ''data: [DONE]'']
     = [JStr (diag_head @ ''error'' @ [CHR 0x0A])]
   \<and> consume_lines stream_lib None [''data: '' @ chunk_hi, ''data: [DONE]''] = ([JStr ''hi''], None)"
proof -
  have a: "consume_lines stream_lib None
      [''data: '' @ chunk_null_delta, ''data: '' @ chunk_hi, ''data: [DONE]''] = ([], Some TypeError)"
    by (simp add: stream_lib_plain chunks_not_done delta_content_null caught_in_loop_def)
  have t: "str_take 100 ''error'' = ''error''"
    by (simp add: str_take_def is_cont_def)
  have b: "stream_llm_ok stream_lib None
      [''data: '' @ chunk_null_delta, ''data: '' @ chunk_hi, ''data: [DONE]'']
     = [JStr (diag_head @ ''error'' @ [CHR 0x0A])]"
    unfolding stream_llm_ok_def a by (simp add: stream_lib_plain t)
  have c: "consume_lines stream_lib None [''data: '' @ chunk_hi, ''data: [DONE]''] = ([JStr ''hi''], None)"
    by (simp add: stream_lib_plain chunks_not_done delta_content_hi)
  from a b c show ?thesis by (intro conjI)
qed

end
